theory Spec2Isabelle
  imports Complex_Main "HOL-Library.Char_ord" "HOL-Library.List_Lexorder" "HOL-Library.AList"
begin

section \<open>JavaScript values used by the backend\<close>

text \<open>
  The backend (\<^verbatim>\<open>server.js\<close>) works on JSON request bodies, the process environment and
  the replies of two remote endpoints. Strings are \<^typ>\<open>string\<close>; a property that may be
  absent (\<^verbatim>\<open>undefined\<close>) is a \<^typ>\<open>string option\<close>. An object whose properties are strings
  (the request's filter mapping, \<^verbatim>\<open>process.env\<close>, the configured fields) is the list of its
  own properties in \<^verbatim>\<open>Object.keys\<close> order, with distinct keys. The filter values of a
  request to \<^verbatim>\<open>POST /api/orders\<close> are strings, as the FilterRequest of the data model has
  them; the term query builder, which reads whatever the request mapping holds, is
  modelled on arbitrary JSON values. A string is the list of its code units, each below
  256: characters beyond that range are outside the model.
\<close>

type_synonym js_object = "(string \<times> string) list"

definition object_keys :: "js_object \<Rightarrow> string list" where
  "object_keys obj = map fst obj"

definition get_prop :: "js_object \<Rightarrow> string \<Rightarrow> string option" where
  "get_prop obj key = map_of obj key"

text \<open>
  \<^verbatim>\<open>obj[key] = v\<close>: an existing property keeps its place, a new one goes last. (JavaScript
  enumerates property names that look like array indices before the others, and treats
  the name \<^verbatim>\<open>__proto__\<close> specially; the names here are field names, not such names.)
\<close>

definition set_prop :: "string \<Rightarrow> string \<Rightarrow> js_object \<Rightarrow> js_object" where
  "set_prop key v obj = AList.update key v obj"

text \<open>\<^verbatim>\<open>{...base, ...extra}\<close>: the properties of \<open>extra\<close> are assigned in order.\<close>

definition spread :: "js_object \<Rightarrow> js_object \<Rightarrow> js_object" where
  "spread base extra = foldl (\<lambda>acc (k, v). set_prop k v acc) base extra"

text \<open>Truthiness of a possibly absent string: \<^verbatim>\<open>undefined\<close> and \<^verbatim>\<open>''\<close> are falsy.\<close>

definition truthy :: "string option \<Rightarrow> bool" where
  "truthy v = (case v of None \<Rightarrow> False | Some s \<Rightarrow> s \<noteq> [])"

text \<open>\<^verbatim>\<open>v || d\<close> on a possibly absent string.\<close>

definition js_or :: "string option \<Rightarrow> string \<Rightarrow> string" where
  "js_or v d = (case v of None \<Rightarrow> d | Some s \<Rightarrow> if s = [] then d else s)"

text \<open>\<^verbatim>\<open>xs.join(sep)\<close>.\<close>

fun join :: "string \<Rightarrow> string list \<Rightarrow> string" where
  "join sep [] = []"
| "join sep [x] = x"
| "join sep (x # y # ys) = x @ sep @ join sep (y # ys)"

text \<open>
  \<^verbatim>\<open>toUpperCase\<close> and \<^verbatim>\<open>toLowerCase\<close>, on the ASCII range: letters outside it are left
  as they are. The white space that \<^verbatim>\<open>trim\<close> removes is, among the code units below
  256, tab, line feed, vertical tab, form feed, carriage return, space and the no-break
  space U+00A0.
\<close>

definition upper_char :: "char \<Rightarrow> char" where
  "upper_char c =
     (let n = (of_char c :: nat) in if 97 \<le> n \<and> n \<le> 122 then char_of (n - 32) else c)"

definition lower_char :: "char \<Rightarrow> char" where
  "lower_char c =
     (let n = (of_char c :: nat) in if 65 \<le> n \<and> n \<le> 90 then char_of (n + 32) else c)"

definition toUpperCase :: "string \<Rightarrow> string" where
  "toUpperCase s = map upper_char s"

definition toLowerCase :: "string \<Rightarrow> string" where
  "toLowerCase s = map lower_char s"

definition is_space :: "char \<Rightarrow> bool" where
  "is_space c = ((of_char c :: nat) \<in> {9, 10, 11, 12, 13, 32, 160})"

definition trim :: "string \<Rightarrow> string" where
  "trim s = rev (dropWhile is_space (rev (dropWhile is_space s)))"

text \<open>
  The errors the code throws or meets: \<^verbatim>\<open>TypeError\<close> (a property read of \<^verbatim>\<open>undefined\<close>, a
  call of something that is no function), the error of a rejected \<^verbatim>\<open>axios\<close> request, and
  \<^verbatim>\<open>new Error(message)\<close>.
\<close>

datatype js_error = TypeError | AxiosError | Error string

text \<open>
  The values of a parsed JSON body. A request mapping is a plain object holding such
  values: reading a property gives the own property if there is one, else what the object
  inherits from \<^verbatim>\<open>Object.prototype\<close> under that name (a function, or for \<^verbatim>\<open>__proto__\<close> the
  prototype itself), else \<^verbatim>\<open>undefined\<close>.
\<close>

datatype json =
    JNull
  | JBool bool
  | JNum rat
  | JStr string
  | JArr "json list"
  | JObj "(string \<times> json) list"

type_synonym json_object = "(string \<times> json) list"

datatype js_value = Undefined | Own json | Inherited

definition object_prototype_names :: "string list" where
  "object_prototype_names =
     [''constructor'', ''__proto__'', ''hasOwnProperty'', ''isPrototypeOf'',
      ''propertyIsEnumerable'', ''toLocaleString'', ''toString'', ''valueOf'',
      ''__defineGetter__'', ''__defineSetter__'', ''__lookupGetter__'', ''__lookupSetter__'']"

definition read_prop :: "json_object \<Rightarrow> string \<Rightarrow> js_value" where
  "read_prop obj key =
     (case map_of obj key of
        Some v \<Rightarrow> Own v
      | None \<Rightarrow> if key \<in> set object_prototype_names then Inherited else Undefined)"

text \<open>Truthiness of a JSON value: \<^verbatim>\<open>null\<close>, \<^verbatim>\<open>false\<close>, \<^verbatim>\<open>0\<close> and \<^verbatim>\<open>''\<close> are falsy.\<close>

fun json_truthy :: "json \<Rightarrow> bool" where
  "json_truthy JNull = False"
| "json_truthy (JBool b) = b"
| "json_truthy (JNum n) = (n \<noteq> 0)"
| "json_truthy (JStr s) = (s \<noteq> [])"
| "json_truthy (JArr xs) = True"
| "json_truthy (JObj ps) = True"

text \<open>A mapping of strings as a mapping of JSON values.\<close>

definition json_of_strings :: "js_object \<Rightarrow> json_object" where
  "json_of_strings obj = map (\<lambda>(key, v). (key, JStr v)) obj"

text \<open>\<^verbatim>\<open>xs.forEach(f)\<close> on a state, where \<open>f\<close> may throw: the first error ends the loop.\<close>

fun for_each :: "('s \<Rightarrow> 'a \<Rightarrow> js_error + 's) \<Rightarrow> 's \<Rightarrow> 'a list \<Rightarrow> js_error + 's" where
  "for_each f s [] = Inr s"
| "for_each f s (x # xs) = (case f s x of Inl e \<Rightarrow> Inl e | Inr s' \<Rightarrow> for_each f s' xs)"

section \<open>The cache key\<close>

text \<open>
  \<^verbatim>\<open>
  const generateCacheKey = (startDate, endDate, requestData, environment) => {
      const filterValues = Object.keys(requestData)
          .sort()
          .map(key => `${key}:${requestData[key] || ''}`)
          .join('_');
      return `orders_${environment}_${startDate}_${endDate}_${filterValues}`;
  };
  \<close>
  \<^verbatim>\<open>sort()\<close> without a comparator orders strings by their code units, which on
  \<^typ>\<open>string\<close> is the lexicographic order of the character codes.
\<close>

definition generateCacheKey :: "string \<Rightarrow> string \<Rightarrow> js_object \<Rightarrow> string \<Rightarrow> string" where
  "generateCacheKey startDate endDate requestData environment =
     (let filterValues =
            join ''_'' (map (\<lambda>key. key @ '':'' @ js_or (get_prop requestData key) [])
                            (sort (object_keys requestData)))
      in ''orders_'' @ environment @ ''_'' @ startDate @ ''_'' @ endDate @ ''_'' @ filterValues)"

section \<open>Configured filter fields\<close>

text \<open>\<^verbatim>\<open>s.startsWith(p)\<close>, \<^verbatim>\<open>s.replace(pat, rep)\<close> (first occurrence) and \<^verbatim>\<open>s.split(c)\<close>.\<close>

definition startsWith :: "string \<Rightarrow> string \<Rightarrow> bool" where
  "startsWith s p = (take (length p) s = p)"

fun replace_first :: "string \<Rightarrow> string \<Rightarrow> string \<Rightarrow> string" where
  "replace_first pat rep [] = (if pat = [] then rep else [])"
| "replace_first pat rep (c # cs) =
     (if take (length pat) (c # cs) = pat then rep @ drop (length pat) (c # cs)
      else c # replace_first pat rep cs)"

fun split_on :: "char \<Rightarrow> string \<Rightarrow> string list" where
  "split_on sep [] = [[]]"
| "split_on sep (c # cs) =
     (if c = sep then [] # split_on sep cs
      else (case split_on sep cs of [] \<Rightarrow> [[c]] | w # ws \<Rightarrow> (c # w) # ws))"



text \<open>
  \<^verbatim>\<open>
  const getConfigurableTermQueryFields = () => {
      const fields = {};
      Object.keys(process.env).forEach(key => {
          if (key.startsWith('TERM_QUERY_FIELD_')) {
              const fieldKey = key.replace('TERM_QUERY_FIELD_', '').toLowerCase();
              const fieldValue = process.env[key];
              if (fieldValue) { fields[fieldKey] = fieldValue; }
          }
      });
      return fields;
  };
  \<close>
\<close>

definition getConfigurableTermQueryFields :: "js_object \<Rightarrow> js_object" where
  "getConfigurableTermQueryFields env =
     foldl (\<lambda>fields key.
              if startsWith key ''TERM_QUERY_FIELD_''
              then (let fieldKey = toLowerCase (replace_first ''TERM_QUERY_FIELD_'' [] key)
                    in case get_prop env key of
                         None \<Rightarrow> fields
                       | Some fieldValue \<Rightarrow>
                           if fieldValue \<noteq> [] then set_prop fieldKey fieldValue fields
                           else fields)
              else fields)
           [] (object_keys env)"








section \<open>Term queries\<close>

text \<open>
  \<^verbatim>\<open>
  const buildTermQueries = (requestData, configurableFields) => {
      const termQueries = [];
      termQueries.push({ "term_query": {
          "fields": ["status"], "operator": "not_in", "values": ["created", "failed"] } });
      Object.keys(configurableFields).forEach(fieldKey => {
          const fieldName = configurableFields[fieldKey];
          let fieldValue = null;
          switch (fieldKey) {
              case 'order_type': fieldValue = requestData.orderType; break;
              case 'customer_type': fieldValue = requestData.customerType; break;
              case 'channel': fieldValue = requestData.channel; break;
              case 'region': fieldValue = requestData.region; break;
              case 'store_id': fieldValue = requestData.storeId; break;
              default: fieldValue = requestData[fieldKey]; break;
          }
          if (fieldValue && fieldValue.trim() !== '') {
              termQueries.push({ "term_query": {
                  "fields": [fieldName], "operator": "is", "values": [fieldValue] } });
          }
      });
      return termQueries;
  };
  \<close>
\<close>

datatype term_query =
  TermQuery (tq_fields: "string list") (tq_operator: string) (tq_values: "string list")

definition status_filter :: term_query where
  "status_filter = TermQuery [''status''] ''not_in'' [''created'', ''failed'']"

definition request_key :: "string \<Rightarrow> string" where
  "request_key fieldKey =
     (if fieldKey = ''order_type'' then ''orderType''
      else if fieldKey = ''customer_type'' then ''customerType''
      else if fieldKey = ''channel'' then ''channel''
      else if fieldKey = ''region'' then ''region''
      else if fieldKey = ''store_id'' then ''storeId''
      else fieldKey)"

text \<open>
  The body of the \<^verbatim>\<open>forEach\<close>. A falsy \<^verbatim>\<open>fieldValue\<close> adds nothing; a truthy string is
  trimmed; any other truthy value (a number, \<^verbatim>\<open>true\<close>, an array, an object, an inherited
  function) has no method \<^verbatim>\<open>trim\<close>, and the call throws \<^verbatim>\<open>TypeError\<close>.
\<close>

definition add_term_query ::
    "json_object \<Rightarrow> term_query list \<Rightarrow> string \<times> string \<Rightarrow> js_error + term_query list" where
  "add_term_query requestData termQueries field =
     (case field of (fieldKey, fieldName) \<Rightarrow>
        (case read_prop requestData (request_key fieldKey) of
           Undefined \<Rightarrow> Inr termQueries
         | Inherited \<Rightarrow> Inl TypeError
         | Own v \<Rightarrow>
             if \<not> json_truthy v then Inr termQueries
             else (case v of
                     JStr fieldValue \<Rightarrow>
                       if trim fieldValue \<noteq> []
                       then Inr (termQueries @ [TermQuery [fieldName] ''is'' [fieldValue]])
                       else Inr termQueries
                   | other \<Rightarrow> Inl TypeError)))"

definition buildTermQueries :: "json_object \<Rightarrow> js_object \<Rightarrow> js_error + term_query list" where
  "buildTermQueries requestData configurableFields =
     for_each (add_term_query requestData) [status_filter] configurableFields"

section \<open>Remote endpoints, errors and the request log\<close>

text \<open>
  The server talks to two remote endpoints through \<^verbatim>\<open>axios.post\<close>: the OAuth token
  endpoint and the order search. A reply is a parameter of the model; a rejected request
  is the error \<open>AxiosError\<close>. Every request issued is appended to a log, so that "no
  request is made" and "exactly three requests" are statements about the log. A Date is
  its number of milliseconds.
\<close>

record token_response =
  access_token :: string
  expires_in :: int

record search_payload =
  range_from :: string
  range_to :: string
  must :: "term_query list"
  p_count :: nat
  p_start :: nat

datatype net_request =
    TokenRequest string "string option"
  | SearchRequest string string search_payload

record payment_instrument =
  payment_method_id :: string

record product_item =
  quantity :: rat

record order =
  creation_date :: string
  order_total :: rat
  product_items :: "product_item list"
  guest :: bool
  payment_instruments :: "payment_instrument list option"

record hit =
  data :: order

record page =
  hits :: "hit list"
  total_r :: int

record upstream =
  process_env :: js_object
  oauth :: "net_request \<Rightarrow> js_error + token_response"
  order_search :: "nat \<Rightarrow> net_request \<Rightarrow> js_error + page"

section \<open>Environment configuration and the token cache\<close>

text \<open>
  \<^verbatim>\<open>
  const getEnvironmentConfig = (environment) => {
      const env = environment || 'DEV';
      const prefix = env.toUpperCase();
      const config = {
          apiBaseUrl: process.env[`API_BASE_URL_${prefix}`],
          clientId: process.env[`CLIENT_ID_${prefix}`],
          authHeader: process.env[`AUTH_HEADER_${prefix}`]
      };
      return config;
  };
  \<close>
\<close>

record env_config =
  apiBaseUrl :: "string option"
  clientId :: "string option"
  authHeader :: "string option"

definition getEnvironmentConfig :: "js_object \<Rightarrow> string option \<Rightarrow> env_config" where
  "getEnvironmentConfig penv environment =
     (let env = js_or environment ''DEV'';
          prefix = toUpperCase env
      in \<lparr>apiBaseUrl = get_prop penv (''API_BASE_URL_'' @ prefix),
          clientId = get_prop penv (''CLIENT_ID_'' @ prefix),
          authHeader = get_prop penv (''AUTH_HEADER_'' @ prefix)\<rparr>)"

text \<open>A possibly absent string inside a template literal: \<^verbatim>\<open>undefined\<close> prints its name.\<close>

definition interpolate :: "string option \<Rightarrow> string" where
  "interpolate v = (case v of None \<Rightarrow> ''undefined'' | Some s \<Rightarrow> s)"

text \<open>
  \<^verbatim>\<open>
  const tokenCache = {
      DEV: { accessToken: null, tokenExpiresAt: null },
      PRD: { accessToken: null, tokenExpiresAt: null }
  };
  \<close>
  The object has these two slots for the whole life of the process: the code only ever
  assigns to the fields of a slot. \<^verbatim>\<open>tokenCache[cacheKey]\<close> is \<^verbatim>\<open>undefined\<close> for every
  other key.
\<close>

record token_slot =
  accessToken :: "string option"
  tokenExpiresAt :: "int option"

record token_cache =
  DEV :: token_slot
  PRD :: token_slot

definition empty_slot :: token_slot where
  "empty_slot = \<lparr>accessToken = None, tokenExpiresAt = None\<rparr>"

definition initial_token_cache :: token_cache where
  "initial_token_cache = \<lparr>DEV = empty_slot, PRD = empty_slot\<rparr>"

definition slot_of :: "token_cache \<Rightarrow> string \<Rightarrow> token_slot option" where
  "slot_of tc cacheKey =
     (if cacheKey = ''DEV'' then Some (DEV tc)
      else if cacheKey = ''PRD'' then Some (PRD tc)
      else None)"

definition store_slot :: "string \<Rightarrow> token_slot \<Rightarrow> token_cache \<Rightarrow> token_cache" where
  "store_slot cacheKey slot tc =
     (if cacheKey = ''DEV'' then tc\<lparr>DEV := slot\<rparr>
      else if cacheKey = ''PRD'' then tc\<lparr>PRD := slot\<rparr>
      else tc)"

text \<open>
  \<^verbatim>\<open>
  const getAccessToken = async (environment) => {
      const env = environment || 'DEV';
      const cacheKey = env.toUpperCase();
      const envCache = tokenCache[cacheKey];
      if (envCache.accessToken && envCache.tokenExpiresAt && new Date() < envCache.tokenExpiresAt) {
          return envCache.accessToken;
      }
      try {
          const config = getEnvironmentConfig(env);
          const params = new URLSearchParams();
          params.append('grant_type', '...');
          const response = await axios.post(
              `${config.apiBaseUrl}/dw/oauth2/access_token?client_id=${config.clientId}`,
              params,
              { headers: { 'Content-Type': ..., 'Authorization': config.authHeader } });
          const { access_token, expires_in } = response.data;
          envCache.accessToken = access_token;
          envCache.tokenExpiresAt = new Date(new Date().getTime() + (expires_in - 60) * 1000);
          return envCache.accessToken;
      } catch (error) {
          throw new Error(`Could not retrieve access token for ${cacheKey} environment.`);
      }
  };
  \<close>
  \<open>now\<close> is the clock when the cached token is checked, \<open>now'\<close> the clock when the new
  token is stored. The result is the token or the error thrown, the token cache after the
  call, and the requests issued.
\<close>

definition token_request :: "env_config \<Rightarrow> net_request" where
  "token_request config =
     TokenRequest
       (interpolate (apiBaseUrl config) @ ''/dw/oauth2/access_token?client_id=''
          @ interpolate (clientId config))
       (authHeader config)"

text \<open>The \<^verbatim>\<open>try\<close> block: the credential exchange, once, and what it stores.\<close>

definition refresh_token ::
    "upstream \<Rightarrow> int \<Rightarrow> token_cache \<Rightarrow> string \<Rightarrow> string
      \<Rightarrow> (js_error + string) \<times> token_cache \<times> net_request list" where
  "refresh_token up now' tokenCache env cacheKey =
     (let config = getEnvironmentConfig (process_env up) (Some env);
          request = token_request config
      in case oauth up request of
           Inl error \<Rightarrow>
             (Inl (Error (''Could not retrieve access token for '' @ cacheKey
                            @ '' environment.'')),
              tokenCache, [request])
         | Inr response \<Rightarrow>
             (Inr (access_token response),
              store_slot cacheKey
                \<lparr>accessToken = Some (access_token response),
                 tokenExpiresAt = Some (now' + (expires_in response - 60) * 1000)\<rparr>
                tokenCache,
              [request]))"

definition slot_valid :: "int \<Rightarrow> token_slot \<Rightarrow> bool" where
  "slot_valid now envCache =
     (truthy (accessToken envCache)
      \<and> (case tokenExpiresAt envCache of None \<Rightarrow> False | Some t \<Rightarrow> now < t))"

definition getAccessToken ::
    "upstream \<Rightarrow> int \<Rightarrow> int \<Rightarrow> token_cache \<Rightarrow> string option
      \<Rightarrow> (js_error + string) \<times> token_cache \<times> net_request list" where
  "getAccessToken up now now' tokenCache environment =
     (let env = js_or environment ''DEV'';
          cacheKey = toUpperCase env
      in case slot_of tokenCache cacheKey of
           None \<Rightarrow> (Inl TypeError, tokenCache, [])
         | Some envCache \<Rightarrow>
             (case accessToken envCache of
                Some token \<Rightarrow>
                  if slot_valid now envCache then (Inr token, tokenCache, [])
                  else refresh_token up now' tokenCache env cacheKey
              | None \<Rightarrow> refresh_token up now' tokenCache env cacheKey))"

section \<open>The aggregator\<close>

text \<open>
  \<^verbatim>\<open>
  const processOrderData = (hits, paymentMethod) => {
      let filteredHits = hits;
      if (paymentMethod && paymentMethod.trim() !== '') {
          filteredHits = hits.filter(hit => {
              const order = hit.data;
              return order.payment_instruments &&
                     order.payment_instruments.length > 0 &&
                     order.payment_instruments[0].payment_method_id === paymentMethod;
          });
      }
      const dailyMetrics = {};
      const customerBreakdown = { new: 0, returning: 0, registered: 0, unregistered: 0 };
      let totalOrders = filteredHits.length;
      let totalRevenue = 0;
      let totalUnits = 0;
      filteredHits.forEach(hit => {
          const order = hit.data;
          const date = order.creation_date.split('T')[0];
          if (!dailyMetrics[date]) { dailyMetrics[date] = { orders: 0, revenue: 0, units: 0 }; }
          dailyMetrics[date].orders += 1;
          dailyMetrics[date].revenue += order.order_total;
          const orderUnits = order.product_items.reduce((sum, item) => sum + item.quantity, 0);
          dailyMetrics[date].units += orderUnits;
          totalRevenue += order.order_total;
          totalUnits += orderUnits;
          if (order.guest) {
              customerBreakdown.new += 1;
              customerBreakdown.unregistered += 1;
          } else {
              customerBreakdown.returning += 1;
              customerBreakdown.registered += 1;
          }
      });
      const avgOrderValue = totalOrders > 0 ? totalRevenue / totalOrders : 0;
      const avgUnitsPerTransaction = totalOrders > 0 ? totalUnits / totalOrders : 0;
      return { dailyMetrics, customerBreakdown,
               kpis: { totalOrders, totalRevenue, totalUnits, avgOrderValue, avgUnitsPerTransaction } };
  };
  \<close>
  Amounts and quantities are exact rationals: the rounding of JavaScript's numbers is not
  modelled. A division is checked: a zero divisor is the fault \<open>DivisionByZero\<close>, so that a
  division by zero anywhere in the computation shows in the result.
\<close>

datatype fault = DivisionByZero

definition divide_checked :: "rat \<Rightarrow> rat \<Rightarrow> fault + rat" where
  "divide_checked a b = (if b = 0 then Inl DivisionByZero else Inr (a / b))"

record day_metrics =
  orders :: nat
  revenue :: rat
  units :: rat

record customer_breakdown =
  new :: nat
  returning :: nat
  registered :: nat
  unregistered :: nat

record kpi_summary =
  totalOrders :: nat
  totalRevenue :: rat
  totalUnits :: rat
  avgOrderValue :: rat
  avgUnitsPerTransaction :: rat

record aggregate =
  dailyMetrics :: "(string \<times> day_metrics) list"
  customerBreakdown :: customer_breakdown
  kpis :: kpi_summary

definition matches_payment_method :: "string \<Rightarrow> hit \<Rightarrow> bool" where
  "matches_payment_method paymentMethod h =
     (let order = data h
      in case payment_instruments order of
           None \<Rightarrow> False
         | Some [] \<Rightarrow> False
         | Some (first # rest) \<Rightarrow> payment_method_id first = paymentMethod)"

definition filterHits :: "hit list \<Rightarrow> string option \<Rightarrow> hit list" where
  "filterHits hs paymentMethod =
     (case paymentMethod of
        None \<Rightarrow> hs
      | Some pm \<Rightarrow>
          if pm \<noteq> [] \<and> trim pm \<noteq> [] then filter (matches_payment_method pm) hs else hs)"

definition order_date :: "order \<Rightarrow> string" where
  "order_date order = (case split_on CHR ''T'' (creation_date order) of [] \<Rightarrow> [] | d # ds \<Rightarrow> d)"

definition order_units :: "order \<Rightarrow> rat" where
  "order_units order = foldl (\<lambda>sum item. sum + quantity item) 0 (product_items order)"

text \<open>
  The body of the \<^verbatim>\<open>forEach\<close>, on the four variables it updates (\<^verbatim>\<open>dailyMetrics\<close>,
  \<^verbatim>\<open>customerBreakdown\<close>, \<^verbatim>\<open>totalRevenue\<close>, \<^verbatim>\<open>totalUnits\<close>).
\<close>

definition aggregate_hit ::
    "(string \<times> day_metrics) list \<times> customer_breakdown \<times> rat \<times> rat \<Rightarrow> hit
      \<Rightarrow> (string \<times> day_metrics) list \<times> customer_breakdown \<times> rat \<times> rat" where
  "aggregate_hit st h =
     (case st of (daily, breakdown, revenueSum, unitSum) \<Rightarrow>
        (let order = data h;
             date = order_date order;
             day = (case map_of daily date of
                      None \<Rightarrow> \<lparr>orders = 0, revenue = 0, units = 0\<rparr>
                    | Some d \<Rightarrow> d);
             orderUnits = order_units order;
             day' = \<lparr>orders = orders day + 1, revenue = revenue day + order_total order,
                     units = units day + orderUnits\<rparr>
         in (AList.update date day' daily,
             (if guest order
              then breakdown\<lparr>new := new breakdown + 1,
                              unregistered := unregistered breakdown + 1\<rparr>
              else breakdown\<lparr>returning := returning breakdown + 1,
                              registered := registered breakdown + 1\<rparr>),
             revenueSum + order_total order,
             unitSum + orderUnits)))"

definition processOrderData :: "hit list \<Rightarrow> string option \<Rightarrow> fault + aggregate" where
  "processOrderData hs paymentMethod =
     (let filteredHits = filterHits hs paymentMethod;
          orderCount = length filteredHits
      in case foldl aggregate_hit
                ([], \<lparr>new = 0, returning = 0, registered = 0, unregistered = 0\<rparr>, 0, 0)
                filteredHits of
           (daily, breakdown, revenueSum, unitSum) \<Rightarrow>
             (case (if orderCount > 0 then divide_checked revenueSum (of_nat orderCount)
                    else Inr 0) of
                Inl f \<Rightarrow> Inl f
              | Inr avgValue \<Rightarrow>
                  (case (if orderCount > 0 then divide_checked unitSum (of_nat orderCount)
                         else Inr 0) of
                     Inl f \<Rightarrow> Inl f
                   | Inr avgUnits \<Rightarrow>
                       Inr \<lparr>dailyMetrics = daily,
                            customerBreakdown = breakdown,
                            kpis = \<lparr>totalOrders = orderCount, totalRevenue = revenueSum,
                                    totalUnits = unitSum, avgOrderValue = avgValue,
                                    avgUnitsPerTransaction = avgUnits\<rparr>\<rparr>)))"

section \<open>The response cache\<close>

text \<open>
  Modelled from the spec: the cache object \<^verbatim>\<open>orderCache\<close> is an instance of the
  \<^verbatim>\<open>node-cache\<close> package, which is not part of the sources. Its operations are those of
  the Response Cache of the specification: \<open>get\<close> returns the stored value or nothing,
  checks expiry at read time and counts a hit or a miss; \<open>set\<close> stores with the fixed
  time-to-live and overwrites; \<open>keys\<close> lists the stored keys; \<open>flushAll\<close> removes every
  entry; \<open>del\<close> removes exactly the given key if present and returns the number of
  entries removed. The server creates it with \<^verbatim>\<open>stdTTL: 1800\<close> (seconds).
\<close>

record cache_entry =
  stored :: "hit list"
  insertedAt :: int
  ttl :: int

record order_cache =
  entries :: "(string \<times> cache_entry) list"
  hit_count :: nat
  miss_count :: nat

definition stdTTL :: int where
  "stdTTL = 1800 * 1000"

definition cache_get :: "int \<Rightarrow> string \<Rightarrow> order_cache \<Rightarrow> hit list option \<times> order_cache" where
  "cache_get now key c =
     (case map_of (entries c) key of
        None \<Rightarrow> (None, c\<lparr>miss_count := miss_count c + 1\<rparr>)
      | Some e \<Rightarrow>
          if now < insertedAt e + ttl e
          then (Some (stored e), c\<lparr>hit_count := hit_count c + 1\<rparr>)
          else (None, c\<lparr>miss_count := miss_count c + 1\<rparr>))"

definition cache_set :: "int \<Rightarrow> string \<Rightarrow> hit list \<Rightarrow> order_cache \<Rightarrow> order_cache" where
  "cache_set now key v c =
     c\<lparr>entries := AList.update key \<lparr>stored = v, insertedAt = now, ttl = stdTTL\<rparr> (entries c)\<rparr>"

definition cache_keys :: "order_cache \<Rightarrow> string list" where
  "cache_keys c = map fst (entries c)"

definition cache_flushAll :: "order_cache \<Rightarrow> order_cache" where
  "cache_flushAll c = c\<lparr>entries := []\<rparr>"

definition cache_del :: "string \<Rightarrow> order_cache \<Rightarrow> nat \<times> order_cache" where
  "cache_del key c =
     (if key \<in> set (cache_keys c) then (1, c\<lparr>entries := AList.delete key (entries c)\<rparr>)
      else (0, c))"

section \<open>The request handlers\<close>

datatype response_body =
    ErrorBody string
  | HitsBody "hit list"
  | ClearedBody nat
  | DeletedBody bool

record response =
  status :: nat
  body :: response_body

record server_state =
  tokens :: token_cache
  orderCache :: order_cache

text \<open>
  \<^verbatim>\<open>
  app.delete('/api/cache/clear', (req, res) => {
      const keyCount = orderCache.keys().length;
      orderCache.flushAll();
      res.json({ message: ..., clearedKeys: keyCount });
  });
  app.delete('/api/cache/clear/:key', (req, res) => {
      const key = req.params.key;
      const deleted = orderCache.del(key);
      if (deleted) {
          res.json({ message: ..., deleted: true });
      } else {
          res.status(404).json({ message: ..., deleted: false });
      }
  });
  \<close>
\<close>

definition delete_cache_clear :: "order_cache \<Rightarrow> response \<times> order_cache" where
  "delete_cache_clear c =
     (let keyCount = length (cache_keys c);
          c' = cache_flushAll c
      in (\<lparr>status = 200, body = ClearedBody keyCount\<rparr>, c'))"

definition delete_cache_clear_key :: "string \<Rightarrow> order_cache \<Rightarrow> response \<times> order_cache" where
  "delete_cache_clear_key key c =
     (case cache_del key c of
        (deleted, c') \<Rightarrow>
          if deleted \<noteq> 0 then (\<lparr>status = 200, body = DeletedBody True\<rparr>, c')
          else (\<lparr>status = 404, body = DeletedBody False\<rparr>, c'))"

text \<open>
  The pagination loop of \<^verbatim>\<open>POST /api/orders\<close>:
  \<^verbatim>\<open>
  let allHits = [];
  let start = 0;
  let total = 0;
  do {
      orderSearchPayload.start = start;
      const response = await axios.post(
          `${config.apiBaseUrl}/dw/shop/v24_5/order_search`,
          orderSearchPayload,
          { headers: { Authorization: `Bearer ${token}` } });
      const responseData = response.data;
      allHits = allHits.concat(responseData.hits);
      total = responseData.total;
      start += responseData.hits.length;
  } while (start < total && allHits.length < total);
  \<close>
  The loop may run forever, so the model is a partial function: \<open>None\<close> is a loop that
  never ends. \<open>issued\<close> holds the page requests issued so far; the reply to a request may
  depend on how many came before it. A rejected request leaves the loop with the error.
  \<^verbatim>\<open>total\<close> is assigned in the body before the condition reads it, so it is no
  parameter of the loop.
\<close>

partial_function (option) fetch_pages ::
    "upstream \<Rightarrow> string \<Rightarrow> string \<Rightarrow> search_payload \<Rightarrow> net_request list \<Rightarrow> hit list \<Rightarrow> nat
      \<Rightarrow> ((js_error + hit list) \<times> net_request list) option" where
  "fetch_pages up url token orderSearchPayload issued allHits start =
     (let payload = orderSearchPayload\<lparr>p_start := start\<rparr>;
          request = SearchRequest url token payload
      in case order_search up (length issued) request of
           Inl error \<Rightarrow> Some (Inl error, issued @ [request])
         | Inr responseData \<Rightarrow>
             (let allHits' = allHits @ hits responseData;
                  total = total_r responseData;
                  start' = start + length (hits responseData)
              in if int start' < total \<and> int (length allHits') < total
                 then fetch_pages up url token payload (issued @ [request]) allHits' start'
                 else Some (Inr allHits', issued @ [request])))"

text \<open>
  \<^verbatim>\<open>
  app.post('/api/orders', async (req, res) => {
      try {
          const { startDate, endDate, environment, ...otherFilters } = req.body;
          if (!startDate || !endDate) {
              return res.status(400).json({ error: 'Start date and end date are required.' });
          }
          const selectedEnvironment = environment || 'DEV';
          const requestData = { orderType: otherFilters.orderType || 'Prepaid', ...otherFilters };
          const configurableFields = getConfigurableTermQueryFields();
          const cacheKey = generateCacheKey(startDate, endDate, requestData, selectedEnvironment);
          const cachedData = orderCache.get(cacheKey);
          if (cachedData) { return res.json(cachedData); }
          const config = getEnvironmentConfig(selectedEnvironment);
          const token = await getAccessToken(selectedEnvironment);
          const termQueries = buildTermQueries(requestData, configurableFields);
          const orderSearchPayload = { "query": { "filtered_query": {
                  "filter": { "range_filter": { "field": "creation_date",
                                                "from": startDate, "to": endDate } },
                  "query": { "bool_query": { "must": termQueries } } } },
              "count": 200, "start": 0, "select": "(**)", "sorts": [...] };
          ... the pagination loop ...
          const responseData = { hits: allHits };
          orderCache.set(cacheKey, responseData);
          res.json(responseData);
      } catch (error) {
          res.status(500).json({ error: 'Failed to fetch order data.' });
      }
  });
  \<close>
  The four clock readings of a call are parameters: at the cache lookup, at the check of
  the cached token, at the storing of a new token and at the storing of the result.
  The result is the response, the state of the server after the call and the requests
  issued; \<open>None\<close> is a call that never responds. \<^verbatim>\<open>req.body\<close> is \<^verbatim>\<open>undefined\<close> when the
  request carries no parsed JSON body (Express 5 leaves it so): the destructuring then
  throws inside the \<^verbatim>\<open>try\<close>, and the \<^verbatim>\<open>catch\<close> answers 500. An error thrown by
  \<^verbatim>\<open>buildTermQueries\<close> is caught in the same way.
\<close>

record request_body =
  startDate :: "string option"
  endDate :: "string option"
  environment :: "string option"
  otherFilters :: js_object

record clock_readings =
  t_lookup :: int
  t_token_check :: int
  t_token_store :: int
  t_cache_set :: int

definition server_error :: response where
  "server_error = \<lparr>status = 500, body = ErrorBody ''Failed to fetch order data.''\<rparr>"

definition search_url :: "env_config \<Rightarrow> string" where
  "search_url config = interpolate (apiBaseUrl config) @ ''/dw/shop/v24_5/order_search''"

text \<open>\<^verbatim>\<open>{ orderType: otherFilters.orderType || 'Prepaid', ...otherFilters }\<close>\<close>

definition request_data :: "js_object \<Rightarrow> js_object" where
  "request_data filters =
     spread [(''orderType'', js_or (get_prop filters ''orderType'') ''Prepaid'')] filters"

definition bad_request :: response where
  "bad_request = \<lparr>status = 400, body = ErrorBody ''Start date and end date are required.''\<rparr>"

text \<open>The handler on a parsed body.\<close>

definition orders_for_body ::
    "upstream \<Rightarrow> clock_readings \<Rightarrow> server_state \<Rightarrow> request_body
      \<Rightarrow> (response \<times> server_state \<times> net_request list) option" where
  "orders_for_body up clock st req =
     (case (startDate req, endDate req) of
        (Some dateFrom, Some dateTo) \<Rightarrow>
          if dateFrom = [] \<or> dateTo = []
          then Some (bad_request, st, [])
          else
            (let selectedEnvironment = js_or (environment req) ''DEV'';
                 requestData = request_data (otherFilters req);
                 configurableFields = getConfigurableTermQueryFields (process_env up);
                 cacheKey = generateCacheKey dateFrom dateTo requestData selectedEnvironment
             in case cache_get (t_lookup clock) cacheKey (orderCache st) of
                  (Some cachedData, cache') \<Rightarrow>
                    Some (\<lparr>status = 200, body = HitsBody cachedData\<rparr>,
                          st\<lparr>orderCache := cache'\<rparr>, [])
                | (None, cache') \<Rightarrow>
                    (let config = getEnvironmentConfig (process_env up) (Some selectedEnvironment)
                     in case getAccessToken up (t_token_check clock) (t_token_store clock)
                               (tokens st) (Some selectedEnvironment) of
                          (Inl error, tokens', issued) \<Rightarrow>
                            Some (server_error, \<lparr>tokens = tokens', orderCache = cache'\<rparr>, issued)
                        | (Inr token, tokens', issued) \<Rightarrow>
                            (case buildTermQueries (json_of_strings requestData)
                                    configurableFields of
                               Inl error \<Rightarrow>
                                 Some (server_error,
                                       \<lparr>tokens = tokens', orderCache = cache'\<rparr>, issued)
                             | Inr termQueries \<Rightarrow>
                                 (let orderSearchPayload =
                                        \<lparr>range_from = dateFrom, range_to = dateTo,
                                         must = termQueries, p_count = 200, p_start = 0\<rparr>
                                  in case fetch_pages up (search_url config) token
                                            orderSearchPayload [] [] 0 of
                                       None \<Rightarrow> None
                                     | Some (Inl error, pageRequests) \<Rightarrow>
                                         Some (server_error,
                                               \<lparr>tokens = tokens', orderCache = cache'\<rparr>,
                                               issued @ pageRequests)
                                     | Some (Inr allHits, pageRequests) \<Rightarrow>
                                         Some (\<lparr>status = 200, body = HitsBody allHits\<rparr>,
                                               \<lparr>tokens = tokens',
                                                orderCache =
                                                  cache_set (t_cache_set clock) cacheKey allHits
                                                    cache'\<rparr>,
                                               issued @ pageRequests)))))
      | other \<Rightarrow> Some (bad_request, st, []))"

definition post_orders ::
    "upstream \<Rightarrow> clock_readings \<Rightarrow> server_state \<Rightarrow> request_body option
      \<Rightarrow> (response \<times> server_state \<times> net_request list) option" where
  "post_orders up clock st reqBody =
     (case reqBody of
        None \<Rightarrow> Some (server_error, st, [])
      | Some req \<Rightarrow> orders_for_body up clock st req)"

section \<open>Notions used to state the properties\<close>

text \<open>
  The specification's reading of the term query builder, to compare with
  \<open>buildTermQueries\<close>; it is written out on its own and uses no definition of the model.
  First comes the fixed predicate that excludes the statuses "created" and "failed". Then,
  for each configured field in enumeration order, comes one equality predicate against
  the field's remote name when the request supplies a non-blank value for the field. The
  request names a field by \<open>request_name\<close>: five fields have a name in camel case, any other
  field goes by its own key. A string is blank when all its characters are white space.
  \<open>reads_plain\<close> says that what the request holds for a field is a string or a falsy value
  (\<^verbatim>\<open>null\<close>, \<^verbatim>\<open>false\<close>, \<^verbatim>\<open>0\<close>), or nothing at all, inherited properties included.
\<close>

definition blank :: "string \<Rightarrow> bool" where
  "blank v = (\<forall>c \<in> set v. (of_char c :: nat) \<in> {9, 10, 11, 12, 13, 32, 160})"

definition request_name :: "string \<Rightarrow> string" where
  "request_name fieldKey =
     (case map_of [(''order_type'', ''orderType''), (''customer_type'', ''customerType''),
                   (''channel'', ''channel''), (''region'', ''region''),
                   (''store_id'', ''storeId'')] fieldKey of
        Some name \<Rightarrow> name
      | None \<Rightarrow> fieldKey)"

definition supplied :: "json_object \<Rightarrow> string \<Rightarrow> string option" where
  "supplied requestData fieldKey =
     (case map_of requestData (request_name fieldKey) of
        Some (JStr v) \<Rightarrow> if blank v then None else Some v
      | other \<Rightarrow> None)"

definition spec_term_queries :: "json_object \<Rightarrow> js_object \<Rightarrow> term_query list" where
  "spec_term_queries requestData configurableFields =
     TermQuery [''status''] ''not_in'' [''created'', ''failed''] #
     concat (map (\<lambda>(fieldKey, fieldName).
                    case supplied requestData fieldKey of
                      None \<Rightarrow> []
                    | Some v \<Rightarrow> [TermQuery [fieldName] ''is'' [v]])
                 configurableFields)"

fun plain_value :: "json \<Rightarrow> bool" where
  "plain_value (JStr s) = True"
| "plain_value JNull = True"
| "plain_value (JBool b) = (\<not> b)"
| "plain_value (JNum n) = (n = 0)"
| "plain_value (JArr xs) = False"
| "plain_value (JObj ps) = False"

definition reads_plain :: "json_object \<Rightarrow> string \<Rightarrow> bool" where
  "reads_plain requestData fieldKey =
     (case map_of requestData (request_name fieldKey) of
        Some v \<Rightarrow> plain_value v
      | None \<Rightarrow>
          request_name fieldKey
            \<notin> set [''constructor'', ''__proto__'', ''hasOwnProperty'', ''isPrototypeOf'',
                   ''propertyIsEnumerable'', ''toLocaleString'', ''toString'', ''valueOf'',
                   ''__defineGetter__'', ''__defineSetter__'', ''__lookupGetter__'',
                   ''__lookupSetter__''])"

text \<open>
  A run of the pagination loop, page by page: \<open>fetched \<dots> j\<close> are the records accumulated
  after \<open>j\<close> page requests, \<open>page_request \<dots> j\<close> is the request number \<open>j\<close> (counted from 0)
  and \<open>page_reply \<dots> j\<close> its reply. \<open>stops_at \<dots> j\<close> says that request \<open>j\<close> is rejected or that
  the records accumulated with its page have reached the total it reports; \<open>outcome \<dots> j\<close>
  is what the loop yields when it ends with request \<open>j\<close>.
\<close>

fun fetched :: "upstream \<Rightarrow> string \<Rightarrow> string \<Rightarrow> search_payload \<Rightarrow> nat \<Rightarrow> hit list" where
  "fetched up url token pl 0 = []"
| "fetched up url token pl (Suc j) =
     (let acc = fetched up url token pl j
      in case order_search up j (SearchRequest url token (pl\<lparr>p_start := length acc\<rparr>)) of
           Inl e \<Rightarrow> acc
         | Inr p \<Rightarrow> acc @ hits p)"

definition page_request :: "upstream \<Rightarrow> string \<Rightarrow> string \<Rightarrow> search_payload \<Rightarrow> nat \<Rightarrow> net_request" where
  "page_request up url token pl j =
     SearchRequest url token (pl\<lparr>p_start := length (fetched up url token pl j)\<rparr>)"

definition page_reply :: "upstream \<Rightarrow> string \<Rightarrow> string \<Rightarrow> search_payload \<Rightarrow> nat \<Rightarrow> js_error + page" where
  "page_reply up url token pl j = order_search up j (page_request up url token pl j)"

definition stops_at :: "upstream \<Rightarrow> string \<Rightarrow> string \<Rightarrow> search_payload \<Rightarrow> nat \<Rightarrow> bool" where
  "stops_at up url token pl j =
     (case page_reply up url token pl j of
        Inl e \<Rightarrow> True
      | Inr p \<Rightarrow> total_r p \<le> int (length (fetched up url token pl (Suc j))))"

definition outcome :: "upstream \<Rightarrow> string \<Rightarrow> string \<Rightarrow> search_payload \<Rightarrow> nat \<Rightarrow> js_error + hit list" where
  "outcome up url token pl j =
     (case page_reply up url token pl j of
        Inl e \<Rightarrow> Inl e
      | Inr p \<Rightarrow> Inr (fetched up url token pl (Suc j)))"

text \<open>
  Upstreams for the examples: one that serves a fixed record list page by page and reports
  its length as the total; one whose first page is empty although it reports one record,
  and which delivers the record with the second page; one whose pages are all empty
  although it reports one record.
\<close>

definition page_of :: "hit list \<Rightarrow> net_request \<Rightarrow> js_error + page" where
  "page_of recs request =
     (case request of
        SearchRequest url token payload \<Rightarrow>
          Inr \<lparr>hits = take (p_count payload) (drop (p_start payload) recs),
               total_r = int (length recs)\<rparr>
      | TokenRequest url auth \<Rightarrow> Inl AxiosError)"

definition paged_upstream :: "hit list \<Rightarrow> upstream" where
  "paged_upstream recs =
     \<lparr>process_env = [], oauth = (\<lambda>request. Inl AxiosError),
      order_search = (\<lambda>i request. page_of recs request)\<rparr>"

definition sample_hit :: hit where
  "sample_hit =
     \<lparr>data = \<lparr>creation_date = ''2024-01-05T10:00:00.000Z'', order_total = 100,
               product_items = [\<lparr>quantity = 2\<rparr>], guest = True,
               payment_instruments = None\<rparr>\<rparr>"

definition stalling_upstream :: upstream where
  "stalling_upstream =
     \<lparr>process_env = [], oauth = (\<lambda>request. Inl AxiosError),
      order_search = (\<lambda>i request. if i = 0 then Inr \<lparr>hits = [], total_r = 1\<rparr>
                                    else Inr \<lparr>hits = [sample_hit], total_r = 1\<rparr>)\<rparr>"

definition empty_upstream :: upstream where
  "empty_upstream =
     \<lparr>process_env = [], oauth = (\<lambda>request. Inl AxiosError),
      order_search = (\<lambda>i request. Inr \<lparr>hits = [], total_r = 1\<rparr>)\<rparr>"

definition sample_payload :: search_payload where
  "sample_payload =
     \<lparr>range_from = ''2024-01-01'', range_to = ''2024-01-31'', must = [status_filter],
      p_count = 200, p_start = 0\<rparr>"

definition sample_env :: js_object where
  "sample_env =
     [(''API_BASE_URL_DEV'', ''https://dev.example.com''),
      (''CLIENT_ID_DEV'', ''client-dev''),
      (''AUTH_HEADER_DEV'', ''Basic abc''),
      (''TERM_QUERY_FIELD_ORDER_TYPE'', ''c_smartOrderType''),
      (''TERM_QUERY_FIELD_ORDER_TYPE_VALUES'', ''Prepaid, Postpaid''),
      (''TERM_QUERY_FIELD_REGION'', ''c_region'')]"

text \<open>
  More examples: an upstream that grants a token and serves a first page of 200 out of 450
  records but rejects the second page request; the state of a server that has just
  started; a request; ten records of which four are guest orders; a cache with two
  entries.
\<close>

definition flaky_upstream :: upstream where
  "flaky_upstream =
     \<lparr>process_env = sample_env,
      oauth = (\<lambda>request. Inr \<lparr>access_token = ''tok-1'', expires_in = 1800\<rparr>),
      order_search = (\<lambda>i request. if i = 0 then Inr \<lparr>hits = replicate 200 sample_hit, total_r = 450\<rparr>
                                    else Inl AxiosError)\<rparr>"

definition initial_state :: server_state where
  "initial_state =
     \<lparr>tokens = initial_token_cache,
      orderCache = \<lparr>entries = [], hit_count = 0, miss_count = 0\<rparr>\<rparr>"

definition sample_clock :: clock_readings where
  "sample_clock = \<lparr>t_lookup = 1000, t_token_check = 1000, t_token_store = 2000, t_cache_set = 3000\<rparr>"

definition sample_request :: request_body where
  "sample_request =
     \<lparr>startDate = Some ''2024-01-01'', endDate = Some ''2024-01-31'',
      environment = Some ''dev'', otherFilters = [(''orderType'', ''Prepaid'')]\<rparr>"

definition member_hit :: hit where
  "member_hit =
     \<lparr>data = \<lparr>creation_date = ''2024-01-06T09:30:00.000Z'', order_total = 50,
               product_items = [\<lparr>quantity = 1\<rparr>, \<lparr>quantity = 3\<rparr>], guest = False,
               payment_instruments = Some [\<lparr>payment_method_id = ''CREDIT_CARD''\<rparr>]\<rparr>\<rparr>"

definition ten_hits :: "hit list" where
  "ten_hits = [sample_hit, member_hit, member_hit, sample_hit, member_hit,
               member_hit, sample_hit, member_hit, sample_hit, member_hit]"

definition sample_cache :: order_cache where
  "sample_cache =
     \<lparr>entries = [(''orders_DEV_a_b_orderType:Prepaid'',
                   \<lparr>stored = [sample_hit], insertedAt = 1000, ttl = stdTTL\<rparr>),
                  (''orders_PRD_a_b_orderType:Prepaid'',
                   \<lparr>stored = [], insertedAt = 2000, ttl = stdTTL\<rparr>)],
      hit_count = 3, miss_count = 2\<rparr>"


text \<open>The records with \<^verbatim>\<open>guest\<close> true.\<close>

definition is_guest :: "hit \<Rightarrow> bool" where
  "is_guest h = guest (data h)"

section \<open>Properties\<close>

subsection \<open>Cache key\<close>

lemma sort_keys_reorder:
  assumes "distinct (map fst a)" and "distinct (map fst b)" and "set a = set b"
  shows "sort (map fst a) = sort (map fst b)"
proof (rule sorted_distinct_set_unique)
  show "set (sort (map fst a)) = set (sort (map fst b))"
    using assms(3) by simp
qed (simp_all add: assms(1,2))

lemma map_of_reorder:
  assumes "distinct (map fst a)" and "distinct (map fst b)" and "set a = set b"
  shows "map_of a = map_of b"
  using assms by (rule map_of_inject_set [THEN iffD2])

text \<open>
  C2. For all dates, environment and filter mapping, the cache key depends only on the
  environment, the two dates and the key-value pairs of the mapping: two mappings that
  hold the same pairs, enumerated in different orders, give the same key.
\<close>

theorem generateCacheKey_reorder:
  assumes "distinct (map fst a)" and "distinct (map fst b)" and "set a = set b"
  shows "generateCacheKey dateFrom dateTo a env = generateCacheKey dateFrom dateTo b env"
  using sort_keys_reorder [OF assms] map_of_reorder [OF assms]
  by (simp add: generateCacheKey_def object_keys_def get_prop_def)

theorem generateCacheKey_reorder_witness:
  "generateCacheKey ''2024-01-01'' ''2024-01-31''
      [(''orderType'', ''Prepaid''), (''channel'', ''web'')] ''DEV''
   = generateCacheKey ''2024-01-01'' ''2024-01-31''
      [(''channel'', ''web''), (''orderType'', ''Prepaid'')] ''DEV''"
  by (rule generateCacheKey_reorder) auto

subsection \<open>Term queries\<close>

lemma all_dropWhile: "(\<forall>x \<in> set (dropWhile P xs). P x) = (\<forall>x \<in> set xs. P x)"
  by (induction xs) auto

lemma trim_empty_iff: "trim v = [] \<longleftrightarrow> blank v"
  by (simp add: trim_def dropWhile_eq_Nil_conv all_dropWhile) (simp add: blank_def is_space_def)

lemma blank_Nil: "blank []"
  by (simp add: blank_def)

lemma request_key_name: "request_key fieldKey = request_name fieldKey"
  by (simp add: request_key_def request_name_def)

lemma add_term_query_plain:
  assumes "reads_plain requestData fieldKey"
  shows "add_term_query requestData acc (fieldKey, fieldName)
       = Inr (acc @ (case supplied requestData fieldKey of
                       None \<Rightarrow> []
                     | Some v \<Rightarrow> [TermQuery [fieldName] ''is'' [v]]))"
proof (cases "map_of requestData (request_name fieldKey)")
  case None
  with assms show ?thesis
    by (simp add: add_term_query_def read_prop_def request_key_name reads_plain_def
          supplied_def object_prototype_names_def)
next
  case (Some v)
  with assms have "plain_value v"
    by (simp add: reads_plain_def)
  with Some show ?thesis
    by (cases v)
       (simp_all add: add_term_query_def read_prop_def request_key_name supplied_def
          trim_empty_iff blank_Nil)
qed

lemma for_each_plain:
  assumes "\<forall>(fieldKey, fieldName) \<in> set cf. reads_plain requestData fieldKey"
  shows "for_each (add_term_query requestData) acc cf
       = Inr (acc @ concat (map (\<lambda>(fieldKey, fieldName).
                                   case supplied requestData fieldKey of
                                     None \<Rightarrow> []
                                   | Some v \<Rightarrow> [TermQuery [fieldName] ''is'' [v]])
                                cf))"
  using assms
proof (induction cf arbitrary: acc)
  case Nil
  then show ?case by simp
next
  case (Cons p cf)
  obtain k n where p: "p = (k, n)" by (cases p)
  from Cons.prems have here: "reads_plain requestData k"
    and rest: "\<forall>(fieldKey, fieldName) \<in> set cf. reads_plain requestData fieldKey"
    by (simp_all add: p)
  show ?case
    by (simp add: p add_term_query_plain [OF here] Cons.IH [OF rest])
qed

lemma buildTermQueries_spec:
  assumes "\<forall>(fieldKey, fieldName) \<in> set cf. reads_plain requestData fieldKey"
  shows "buildTermQueries requestData cf = Inr (spec_term_queries requestData cf)"
  by (simp add: buildTermQueries_def spec_term_queries_def for_each_plain [OF assms]
        status_filter_def)

lemma read_prop_update_other:
  "k \<noteq> key \<Longrightarrow> read_prop (AList.update key v requestData) k = read_prop requestData k"
  by (simp add: read_prop_def update_conv')

lemma for_each_cong:
  assumes "\<And>s x. x \<in> set xs \<Longrightarrow> f s x = g s x"
  shows "for_each f s xs = for_each g s xs"
  using assms by (induction xs arbitrary: s) (simp_all split: sum.split)

lemma buildTermQueries_unread_key:
  assumes "\<forall>(fieldKey, fieldName) \<in> set cf. request_name fieldKey \<noteq> key"
  shows "buildTermQueries (AList.update key v requestData) cf = buildTermQueries requestData cf"
  unfolding buildTermQueries_def
proof (rule for_each_cong)
  fix acc and field :: "string \<times> string"
  assume "field \<in> set cf"
  with assms have "request_key (fst field) \<noteq> key"
    by (auto simp: request_key_name)
  then show "add_term_query (AList.update key v requestData) acc field
           = add_term_query requestData acc field"
    by (cases field) (simp add: add_term_query_def read_prop_update_other)
qed

lemma buildTermQueries_inherited:
  "buildTermQueries [] [(''constructor'', ''c_custom'')] = Inl TypeError"
  by (simp add: buildTermQueries_def add_term_query_def read_prop_def request_key_def
        object_prototype_names_def)

text \<open>
  C6, as the claim states it, fails: \<open>buildTermQueries\<close> does not return a list for every
  request mapping. When the request holds the number 5 for \<^verbatim>\<open>orderType\<close> and the field
  \<^verbatim>\<open>order_type\<close> is configured, the call \<^verbatim>\<open>fieldValue.trim()\<close> throws \<^verbatim>\<open>TypeError\<close>.
\<close>

theorem buildTermQueries_throws_on_number:
  "buildTermQueries [(''orderType'', JNum 5)] [(''order_type'', ''c_smartOrderType'')]
   = Inl TypeError"
  by (simp add: buildTermQueries_def add_term_query_def read_prop_def request_key_def)

text \<open>
  C6, amended. For every configured-field mapping and every request mapping in which what
  each configured field reads is a string, a falsy value or nothing, \<open>buildTermQueries\<close>
  returns the list the specification describes: its first element is the fixed predicate
  \<^verbatim>\<open>not_in\<close> on \<^verbatim>\<open>status\<close> with the values "created" and "failed"; then, for each configured
  field in enumeration order, there is one predicate \<^verbatim>\<open>is\<close> against the field's remote name
  exactly when the request supplies a non-blank string for the field. For every request
  mapping, a request key that no configured field reads contributes nothing: setting it
  leaves the result unchanged.
\<close>

theorem buildTermQueries_on_plain_values:
  "((\<forall>(fieldKey, fieldName) \<in> set configurableFields. reads_plain requestData fieldKey)
      \<longrightarrow> buildTermQueries requestData configurableFields
            = Inr (spec_term_queries requestData configurableFields)
          \<and> (\<exists>rest. buildTermQueries requestData configurableFields
                      = Inr (TermQuery [''status''] ''not_in'' [''created'', ''failed'']
                               # rest)))
   \<and> ((\<forall>(fieldKey, fieldName) \<in> set configurableFields. request_name fieldKey \<noteq> key)
        \<longrightarrow> buildTermQueries (AList.update key v requestData) configurableFields
              = buildTermQueries requestData configurableFields)"
proof (intro conjI impI)
  assume plain: "\<forall>(fieldKey, fieldName) \<in> set configurableFields.
                   reads_plain requestData fieldKey"
  then show "buildTermQueries requestData configurableFields
           = Inr (spec_term_queries requestData configurableFields)"
    by (rule buildTermQueries_spec)
  then show "\<exists>rest. buildTermQueries requestData configurableFields
                      = Inr (TermQuery [''status''] ''not_in'' [''created'', ''failed'']
                               # rest)"
    by (simp add: spec_term_queries_def)
next
  assume "\<forall>(fieldKey, fieldName) \<in> set configurableFields. request_name fieldKey \<noteq> key"
  then show "buildTermQueries (AList.update key v requestData) configurableFields
           = buildTermQueries requestData configurableFields"
    by (rule buildTermQueries_unread_key)
qed

theorem buildTermQueries_on_plain_values_witness:
  "buildTermQueries
      (AList.update ''evil'' (JStr ''x'')
         [(''orderType'', JStr ''Prepaid''), (''region'', JStr ''  ''),
          (''channel'', JStr [char_of (160 :: nat)]), (''storeId'', JStr '' S1 ''),
          (''store_id'', JStr ''S2''), (''customerType'', JNull), (''sales_rep'', JStr ''ann'')])
      [(''order_type'', ''c_smartOrderType''), (''region'', ''c_region''),
       (''channel'', ''c_channel''), (''store_id'', ''c_store''),
       (''customer_type'', ''c_customer''), (''sales_rep'', ''c_rep'')]
   = Inr [TermQuery [''status''] ''not_in'' [''created'', ''failed''],
          TermQuery [''c_smartOrderType''] ''is'' [''Prepaid''],
          TermQuery [''c_store''] ''is'' ['' S1 ''],
          TermQuery [''c_rep''] ''is'' [''ann'']]"
proof -
  let ?request = "[(''orderType'', JStr ''Prepaid''), (''region'', JStr ''  ''),
          (''channel'', JStr [char_of (160 :: nat)]), (''storeId'', JStr '' S1 ''),
          (''store_id'', JStr ''S2''), (''customerType'', JNull), (''sales_rep'', JStr ''ann'')]"
  let ?fields = "[(''order_type'', ''c_smartOrderType''), (''region'', ''c_region''),
       (''channel'', ''c_channel''), (''store_id'', ''c_store''),
       (''customer_type'', ''c_customer''), (''sales_rep'', ''c_rep'')]"
  have plain: "\<forall>(fieldKey, fieldName) \<in> set ?fields. reads_plain ?request fieldKey"
    by code_simp
  have unread: "\<forall>(fieldKey, fieldName) \<in> set ?fields. request_name fieldKey \<noteq> ''evil''"
    by code_simp
  have spec: "spec_term_queries ?request ?fields
        = [TermQuery [''status''] ''not_in'' [''created'', ''failed''],
           TermQuery [''c_smartOrderType''] ''is'' [''Prepaid''],
           TermQuery [''c_store''] ''is'' ['' S1 ''],
           TermQuery [''c_rep''] ''is'' [''ann'']]"
    by code_simp
  from buildTermQueries_on_plain_values [of ?fields ?request "''evil''" "JStr ''x''"]
    plain unread
  have "buildTermQueries (AList.update ''evil'' (JStr ''x'') ?request) ?fields
        = Inr (spec_term_queries ?request ?fields)"
    by simp
  with spec show ?thesis by simp
qed

subsection \<open>Advertised filter fields\<close>










subsection \<open>Pagination\<close>

lemma fetch_pages_step:
  "fetch_pages up url token (pl\<lparr>p_start := s0\<rparr>) (map (page_request up url token pl) [0..<i])
      (fetched up url token pl i) (length (fetched up url token pl i))
   = (if stops_at up url token pl i
      then Some (outcome up url token pl i, map (page_request up url token pl) [0..<Suc i])
      else fetch_pages up url token (pl\<lparr>p_start := length (fetched up url token pl i)\<rparr>)
             (map (page_request up url token pl) [0..<Suc i])
             (fetched up url token pl (Suc i)) (length (fetched up url token pl (Suc i))))"
  apply (subst fetch_pages.simps)
  apply (auto simp: stops_at_def outcome_def page_reply_def page_request_def Let_def split: sum.splits)
  done

lemma fetch_pages_reaches:
  assumes "stops_at up url token pl k"
    and "\<forall>j. i \<le> j \<and> j < k \<longrightarrow> \<not> stops_at up url token pl j"
    and "i \<le> k"
  shows "fetch_pages up url token (pl\<lparr>p_start := s0\<rparr>) (map (page_request up url token pl) [0..<i])
      (fetched up url token pl i) (length (fetched up url token pl i))
   = Some (outcome up url token pl k, map (page_request up url token pl) [0..<Suc k])"
  using assms
proof (induction "k - i" arbitrary: i s0)
  case 0
  then have "i = k" by simp
  with "0.prems"(1) show ?case by (subst fetch_pages_step) simp
next
  case (Suc d)
  then have lt: "i < k" and d: "d = k - Suc i" by simp_all
  from Suc.prems(2) lt have ns: "\<not> stops_at up url token pl i" by simp
  have rest: "\<forall>j. Suc i \<le> j \<and> j < k \<longrightarrow> \<not> stops_at up url token pl j"
    using Suc.prems(2) by simp
  from lt have le: "Suc i \<le> k" by simp
  show ?case
    by (subst fetch_pages_step) (simp only: ns if_False Suc.hyps(1) [OF d Suc.prems(1) rest le])
qed


lemma fetch_pages_never_aux:
  assumes "fetch_pages up url token pl' issued allHits start = Some y"
  shows "\<forall>pl i s0. pl' = pl\<lparr>p_start := s0\<rparr> \<longrightarrow>
           issued = map (page_request up url token pl) [0..<i] \<longrightarrow>
           allHits = fetched up url token pl i \<longrightarrow>
           start = length allHits \<longrightarrow>
           (\<forall>j\<ge>i. \<not> stops_at up url token pl j) \<longrightarrow> False"
proof (rule fetch_pages.raw_induct
    [where P = "\<lambda>up url token pl' issued allHits start y.
        \<forall>pl i s0. pl' = pl\<lparr>p_start := s0\<rparr> \<longrightarrow>
           issued = map (page_request up url token pl) [0..<i] \<longrightarrow>
           allHits = fetched up url token pl i \<longrightarrow>
           start = length allHits \<longrightarrow>
           (\<forall>j\<ge>i. \<not> stops_at up url token pl j) \<longrightarrow> False", OF _ assms])
  fix f up url token pl' issued allHits start y
  assume IH: "\<And>up url token pl' issued allHits start y.
        f up url token pl' issued allHits start = Some y \<Longrightarrow>
        \<forall>pl i s0. pl' = pl\<lparr>p_start := s0\<rparr> \<longrightarrow>
           issued = map (page_request up url token pl) [0..<i] \<longrightarrow>
           allHits = fetched up url token pl i \<longrightarrow>
           start = length allHits \<longrightarrow>
           (\<forall>j\<ge>i. \<not> stops_at up url token pl j) \<longrightarrow> False"
    and body: "(let payload = pl'\<lparr>p_start := start\<rparr>;
          request = SearchRequest url token payload
      in case order_search up (length issued) request of
           Inl error \<Rightarrow> Some (Inl error, issued @ [request])
         | Inr responseData \<Rightarrow>
             (let allHits' = allHits @ hits responseData;
                  total = total_r responseData;
                  start' = start + length (hits responseData)
              in if int start' < total \<and> int (length allHits') < total
                 then f up url token payload (issued @ [request]) allHits' start'
                 else Some (Inr allHits', issued @ [request]))) = Some y"
  show "\<forall>pl i s0. pl' = pl\<lparr>p_start := s0\<rparr> \<longrightarrow>
           issued = map (page_request up url token pl) [0..<i] \<longrightarrow>
           allHits = fetched up url token pl i \<longrightarrow>
           start = length allHits \<longrightarrow>
           (\<forall>j\<ge>i. \<not> stops_at up url token pl j) \<longrightarrow> False"
  proof (intro allI impI)
    fix pl i s0
    assume pl': "pl' = pl\<lparr>p_start := s0\<rparr>"
      and issued: "issued = map (page_request up url token pl) [0..<i]"
      and allHits: "allHits = fetched up url token pl i"
      and start: "start = length allHits"
      and never: "\<forall>j\<ge>i. \<not> stops_at up url token pl j"
    from never have ns: "\<not> stops_at up url token pl i" by simp
    from never have rest: "\<forall>j\<ge>Suc i. \<not> stops_at up url token pl j" by simp
    from ns obtain p where reply: "order_search up i
        (SearchRequest url token (pl\<lparr>p_start := length (fetched up url token pl i)\<rparr>)) = Inr p"
      and cont: "int (length (fetched up url token pl i) + length (hits p)) < total_r p"
      by (auto simp: stops_at_def page_reply_def page_request_def Let_def split: sum.splits)
    have call: "f up url token (pl\<lparr>p_start := length (fetched up url token pl i)\<rparr>)
             (map (page_request up url token pl) [0..<Suc i])
             (fetched up url token pl (Suc i)) (length (fetched up url token pl (Suc i))) = Some y"
      using body reply cont
      by (simp add: pl' issued allHits start Let_def page_request_def)
    from IH [OF call] rest show False by blast
  qed
qed

lemma fetch_pages_never:
  assumes "\<forall>j. \<not> stops_at up url token pl j"
  shows "fetch_pages up url token pl [] [] 0 = None"
proof (cases "fetch_pages up url token pl [] [] 0")
  case None
  then show ?thesis .
next
  case (Some y)
  from fetch_pages_never_aux [OF Some]
  have "pl = pl\<lparr>p_start := p_start pl\<rparr> \<longrightarrow>
        [] = map (page_request up url token pl) [0..<0] \<longrightarrow>
        [] = fetched up url token pl 0 \<longrightarrow>
        (0::nat) = length ([]::hit list) \<longrightarrow>
        (\<forall>j\<ge>0. \<not> stops_at up url token pl j) \<longrightarrow> False"
    by blast
  with assms have False by simp
  then show ?thesis ..
qed

lemma fetch_pages_stops:
  assumes "stops_at up url token pl k" and "\<forall>j<k. \<not> stops_at up url token pl j"
  shows "fetch_pages up url token pl [] [] 0
       = Some (outcome up url token pl k, map (page_request up url token pl) [0..<Suc k])"
  using fetch_pages_reaches [of up url token pl k 0 "p_start pl"] assms by simp


lemma take_three_pages:
  "take 200 recs @ take 200 (drop 200 recs) @ drop 400 recs = recs"
proof -
  have "take 400 recs = take 200 recs @ take 200 (drop 200 recs)"
    using take_add [of 200 200 recs] by simp
  moreover have "take 400 recs @ drop 400 recs = recs"
    by simp
  ultimately show ?thesis by simp
qed

lemma fetch_pages_450:
  assumes "length recs = 450"
  shows "fetch_pages (paged_upstream recs) url token (pl\<lparr>p_count := 200\<rparr>) [] [] 0
       = Some (Inr recs,
               [SearchRequest url token (pl\<lparr>p_count := 200, p_start := 0\<rparr>),
                SearchRequest url token (pl\<lparr>p_count := 200, p_start := 200\<rparr>),
                SearchRequest url token (pl\<lparr>p_count := 200, p_start := 400\<rparr>)])"
proof -
  have len: "length (take 200 recs) = 200" "length (take 200 (drop 200 recs)) = 200"
    "length (take 200 (drop 400 recs)) = 50"
    using assms by simp_all
  show ?thesis
    apply (subst fetch_pages.simps)
    apply (simp add: paged_upstream_def page_of_def Let_def assms len)
    apply (subst fetch_pages.simps)
    apply (simp add: paged_upstream_def page_of_def Let_def assms len)
    apply (subst fetch_pages.simps)
    apply (simp add: paged_upstream_def page_of_def Let_def assms len)
    apply (rule take_three_pages)
    done
qed

lemma empty_upstream_reply: "order_search empty_upstream i request = Inr \<lparr>hits = [], total_r = 1\<rparr>"
  by (simp add: empty_upstream_def)

lemma fetched_empty_upstream: "fetched empty_upstream url token pl j = []"
  by (induction j) (simp_all add: empty_upstream_reply)

lemma empty_upstream_never_stops: "\<not> stops_at empty_upstream url token pl j"
  by (simp add: stops_at_def page_reply_def fetched_empty_upstream empty_upstream_reply)


lemma empty_upstream_never_ends: "fetch_pages empty_upstream url token pl [] [] 0 = None"
  by (rule fetch_pages_never) (simp add: empty_upstream_never_stops)

text \<open>
  C1, as the claim states it, fails: an empty page does not stop the loop. The first page
  of this upstream holds no record and reports a total of one; the loop issues a second
  request, for the same offset.
\<close>

theorem fetch_pages_continues_after_empty_page:
  "order_search stalling_upstream 0 (SearchRequest ''u'' ''t'' sample_payload)
     = Inr \<lparr>hits = [], total_r = 1\<rparr>
   \<and> fetch_pages stalling_upstream ''u'' ''t'' sample_payload [] [] 0
     = Some (Inr [sample_hit],
             [SearchRequest ''u'' ''t'' sample_payload, SearchRequest ''u'' ''t'' sample_payload])"
proof -
  have "fetch_pages stalling_upstream ''u'' ''t'' sample_payload [] [] 0
     = Some (Inr [sample_hit],
             [SearchRequest ''u'' ''t'' sample_payload, SearchRequest ''u'' ''t'' sample_payload])"
    apply (subst fetch_pages.simps)
    apply (simp add: stalling_upstream_def Let_def)
    apply (subst fetch_pages.simps)
    apply (simp add: stalling_upstream_def Let_def sample_payload_def)
    done
  then show ?thesis by (simp add: stalling_upstream_def)
qed

text \<open>
  C1, amended. For every upstream, the loop stops issuing page requests exactly at the
  first request that is rejected or whose page brings the number of accumulated records
  up to the total reported with that page: if request \<open>k\<close> is the first such request, the
  loop issues the requests \<open>0, \<dots>, k\<close> and no more. An empty page alone does not stop the
  loop: if no request ever stops it, it never ends. For a consistent upstream with 450
  records and pages of 200, exactly the three requests at offsets 0, 200 and 400 are
  issued and all 450 records are returned.
\<close>

theorem fetch_pages_stops_when_total_reached:
  "(stops_at up url token pl k \<and> (\<forall>j<k. \<not> stops_at up url token pl j)
      \<longrightarrow> fetch_pages up url token pl [] [] 0
            = Some (outcome up url token pl k, map (page_request up url token pl) [0..<Suc k]))
   \<and> ((\<forall>j. \<not> stops_at up url token pl j) \<longrightarrow> fetch_pages up url token pl [] [] 0 = None)
   \<and> (length recs = 450
      \<longrightarrow> fetch_pages (paged_upstream recs) url token (pl\<lparr>p_count := 200\<rparr>) [] [] 0
            = Some (Inr recs,
                    [SearchRequest url token (pl\<lparr>p_count := 200, p_start := 0\<rparr>),
                     SearchRequest url token (pl\<lparr>p_count := 200, p_start := 200\<rparr>),
                     SearchRequest url token (pl\<lparr>p_count := 200, p_start := 400\<rparr>)]))"
  using fetch_pages_stops [of up url token pl k] fetch_pages_never [of up url token pl]
    fetch_pages_450 [of recs url token pl]
  by blast

theorem fetch_pages_stops_when_total_reached_witness:
  "fetch_pages stalling_upstream ''u'' ''t'' sample_payload [] [] 0
     = Some (Inr [sample_hit],
             [SearchRequest ''u'' ''t'' sample_payload, SearchRequest ''u'' ''t'' sample_payload])
   \<and> fetch_pages empty_upstream ''u'' ''t'' sample_payload [] [] 0 = None
   \<and> fetch_pages (paged_upstream (replicate 450 sample_hit)) ''u'' ''t''
        (sample_payload\<lparr>p_count := 200\<rparr>) [] [] 0
     = Some (Inr (replicate 450 sample_hit),
             [SearchRequest ''u'' ''t'' (sample_payload\<lparr>p_count := 200, p_start := 0\<rparr>),
              SearchRequest ''u'' ''t'' (sample_payload\<lparr>p_count := 200, p_start := 200\<rparr>),
              SearchRequest ''u'' ''t'' (sample_payload\<lparr>p_count := 200, p_start := 400\<rparr>)])"
proof -
  have first: "\<forall>j<Suc 0. \<not> stops_at stalling_upstream ''u'' ''t'' sample_payload j"
    by (simp add: stops_at_def page_reply_def page_request_def stalling_upstream_def)
  have second: "stops_at stalling_upstream ''u'' ''t'' sample_payload (Suc 0)"
    by (simp add: stops_at_def page_reply_def page_request_def stalling_upstream_def)
  have result: "outcome stalling_upstream ''u'' ''t'' sample_payload (Suc 0) = Inr [sample_hit]"
    by (simp add: outcome_def page_reply_def page_request_def stalling_upstream_def)
  have requests: "map (page_request stalling_upstream ''u'' ''t'' sample_payload) [0..<Suc (Suc 0)]
      = [SearchRequest ''u'' ''t'' sample_payload, SearchRequest ''u'' ''t'' sample_payload]"
    by (simp add: page_request_def stalling_upstream_def sample_payload_def)
  have stalled: "fetch_pages stalling_upstream ''u'' ''t'' sample_payload [] [] 0
     = Some (Inr [sample_hit],
             [SearchRequest ''u'' ''t'' sample_payload, SearchRequest ''u'' ''t'' sample_payload])"
    using fetch_pages_stops_when_total_reached
            [of stalling_upstream "''u''" "''t''" sample_payload "Suc 0"] first second
    by (simp only: result requests)
  have never: "\<forall>j. \<not> stops_at empty_upstream ''u'' ''t'' sample_payload j"
    by (simp add: empty_upstream_never_stops)
  have empty: "fetch_pages empty_upstream ''u'' ''t'' sample_payload [] [] 0 = None"
    using fetch_pages_stops_when_total_reached
            [of empty_upstream "''u''" "''t''" sample_payload] never
    by blast
  have "length (replicate 450 sample_hit) = 450"
    by simp
  with fetch_pages_stops_when_total_reached [of _ "''u''" "''t''" sample_payload _ "replicate 450 sample_hit"]
  have paged: "fetch_pages (paged_upstream (replicate 450 sample_hit)) ''u'' ''t''
        (sample_payload\<lparr>p_count := 200\<rparr>) [] [] 0
     = Some (Inr (replicate 450 sample_hit),
             [SearchRequest ''u'' ''t'' (sample_payload\<lparr>p_count := 200, p_start := 0\<rparr>),
              SearchRequest ''u'' ''t'' (sample_payload\<lparr>p_count := 200, p_start := 200\<rparr>),
              SearchRequest ''u'' ''t'' (sample_payload\<lparr>p_count := 200, p_start := 400\<rparr>)])"
    by blast
  from stalled empty paged show ?thesis by blast
qed

subsection \<open>Access tokens\<close>

lemma getAccessToken_cached:
  assumes "slot_of tokenCache (toUpperCase (js_or env ''DEV'')) = Some envCache"
    and "accessToken envCache = Some token" and "token \<noteq> []"
    and "tokenExpiresAt envCache = Some t" and "now < t"
  shows "getAccessToken up now now' tokenCache env = (Inr token, tokenCache, [])"
  using assms by (simp add: getAccessToken_def Let_def slot_valid_def truthy_def)

lemma getAccessToken_refresh:
  assumes "slot_of tokenCache (toUpperCase (js_or env ''DEV'')) = Some envCache"
    and "\<not> slot_valid now envCache"
  shows "getAccessToken up now now' tokenCache env
       = refresh_token up now' tokenCache (js_or env ''DEV'')
           (toUpperCase (js_or env ''DEV''))"
  using assms by (simp add: getAccessToken_def Let_def split: option.split)

lemma slot_of_store_slot:
  "slot_of tokenCache cacheKey = Some envCache
   \<Longrightarrow> slot_of (store_slot cacheKey slot tokenCache) cacheKey = Some slot"
  by (auto simp: slot_of_def store_slot_def split: if_splits)

lemma getAccessToken_success:
  assumes "slot_of tokenCache (toUpperCase (js_or env ''DEV'')) = Some envCache"
    and "\<not> slot_valid now envCache"
    and "oauth up (token_request (getEnvironmentConfig (process_env up)
                                   (Some (js_or env ''DEV'')))) = Inr response"
  shows "getAccessToken up now now' tokenCache env
       = (Inr (access_token response),
          store_slot (toUpperCase (js_or env ''DEV''))
            \<lparr>accessToken = Some (access_token response),
             tokenExpiresAt = Some (now' + (expires_in response - 60) * 1000)\<rparr> tokenCache,
          [token_request (getEnvironmentConfig (process_env up)
                            (Some (js_or env ''DEV'')))])"
  using assms by (simp add: getAccessToken_refresh refresh_token_def Let_def)

lemma getAccessToken_failure:
  assumes "slot_of tokenCache (toUpperCase (js_or env ''DEV'')) = Some envCache"
    and "\<not> slot_valid now envCache"
    and "oauth up (token_request (getEnvironmentConfig (process_env up)
                                   (Some (js_or env ''DEV'')))) = Inl e"
  shows "getAccessToken up now now' tokenCache env
       = (Inl (Error (''Could not retrieve access token for ''
                        @ toUpperCase (js_or env ''DEV'') @ '' environment.'')),
          tokenCache,
          [token_request (getEnvironmentConfig (process_env up)
                            (Some (js_or env ''DEV'')))])"
  using assms by (simp add: getAccessToken_refresh refresh_token_def Let_def)

lemma getAccessToken_unknown_environment:
  assumes "toUpperCase (js_or env ''DEV'') \<noteq> ''DEV''"
    and "toUpperCase (js_or env ''DEV'') \<noteq> ''PRD''"
  shows "getAccessToken up now now' tokenCache env = (Inl TypeError, tokenCache, [])"
  using assms by (simp add: getAccessToken_def Let_def slot_of_def)

text \<open>
  C3. For an environment that has a slot in the token cache: when the slot holds a
  non-empty token whose expiry is later than the clock, \<open>getAccessToken\<close> returns that
  token, leaves the token cache as it is and issues no request; when the slot is not
  valid and the credential exchange succeeds, it issues exactly one request, returns the
  token of the reply and stores it in the slot with the expiry set to the clock at that
  moment plus \<open>(expires_in - 60) * 1000\<close> milliseconds; when the exchange fails, it issues
  exactly one request (no retry), leaves the token cache as it is and throws
  \<open>Error\<close> with the message "Could not retrieve access token for K environment.", where
  \<open>K\<close> is the environment name in upper case.
\<close>

theorem getAccessToken_cached_or_exchanged:
  assumes "slot_of tokenCache (toUpperCase (js_or env ''DEV'')) = Some envCache"
  shows
    "(accessToken envCache = Some token \<and> token \<noteq> [] \<and> tokenExpiresAt envCache = Some t \<and> now < t
        \<longrightarrow> getAccessToken up now now' tokenCache env = (Inr token, tokenCache, []))
     \<and> (\<not> slot_valid now envCache
          \<and> oauth up (token_request (getEnvironmentConfig (process_env up)
                                       (Some (js_or env ''DEV'')))) = Inr response
        \<longrightarrow> getAccessToken up now now' tokenCache env
              = (Inr (access_token response),
                 store_slot (toUpperCase (js_or env ''DEV''))
                   \<lparr>accessToken = Some (access_token response),
                    tokenExpiresAt = Some (now' + (expires_in response - 60) * 1000)\<rparr>
                   tokenCache,
                 [token_request (getEnvironmentConfig (process_env up)
                                   (Some (js_or env ''DEV'')))])
            \<and> slot_of (store_slot (toUpperCase (js_or env ''DEV''))
                   \<lparr>accessToken = Some (access_token response),
                    tokenExpiresAt = Some (now' + (expires_in response - 60) * 1000)\<rparr>
                   tokenCache) (toUpperCase (js_or env ''DEV''))
              = Some \<lparr>accessToken = Some (access_token response),
                      tokenExpiresAt = Some (now' + (expires_in response - 60) * 1000)\<rparr>)
     \<and> (\<not> slot_valid now envCache
          \<and> oauth up (token_request (getEnvironmentConfig (process_env up)
                                       (Some (js_or env ''DEV'')))) = Inl e
        \<longrightarrow> getAccessToken up now now' tokenCache env
              = (Inl (Error (''Could not retrieve access token for ''
                               @ toUpperCase (js_or env ''DEV'') @ '' environment.'')),
                 tokenCache,
                 [token_request (getEnvironmentConfig (process_env up)
                                   (Some (js_or env ''DEV'')))]))"
  using assms getAccessToken_cached [OF assms, of token t now up now']
    getAccessToken_success [OF assms, of now up response now']
    getAccessToken_failure [OF assms, of now up e now']
    slot_of_store_slot [OF assms]
  by blast

theorem getAccessToken_cached_or_exchanged_witness:
  "getAccessToken flaky_upstream 1000 2000
      \<lparr>DEV = \<lparr>accessToken = Some ''tok-0'', tokenExpiresAt = Some 5000\<rparr>, PRD = empty_slot\<rparr>
      (Some ''dev'')
     = (Inr ''tok-0'',
        \<lparr>DEV = \<lparr>accessToken = Some ''tok-0'', tokenExpiresAt = Some 5000\<rparr>, PRD = empty_slot\<rparr>,
        [])
   \<and> getAccessToken flaky_upstream 1000 2000 initial_token_cache (Some ''dev'')
     = (Inr ''tok-1'',
        \<lparr>DEV = \<lparr>accessToken = Some ''tok-1'', tokenExpiresAt = Some 1742000\<rparr>, PRD = empty_slot\<rparr>,
        [TokenRequest ''https://dev.example.com/dw/oauth2/access_token?client_id=client-dev''
           (Some ''Basic abc'')])
   \<and> getAccessToken empty_upstream 1000 2000 initial_token_cache (Some ''dev'')
     = (Inl (Error ''Could not retrieve access token for DEV environment.''),
        initial_token_cache,
        [TokenRequest ''undefined/dw/oauth2/access_token?client_id=undefined'' None])"
proof -
  let ?held = "\<lparr>DEV = \<lparr>accessToken = Some ''tok-0'', tokenExpiresAt = Some 5000\<rparr>, PRD = empty_slot\<rparr>"
  have key: "toUpperCase (js_or (Some ''dev'') ''DEV'') = ''DEV''"
    by code_simp
  have held: "slot_of ?held (toUpperCase (js_or (Some ''dev'') ''DEV''))
                = Some \<lparr>accessToken = Some ''tok-0'', tokenExpiresAt = Some 5000\<rparr>"
    by (simp add: key slot_of_def)
  have cached: "getAccessToken flaky_upstream 1000 2000 ?held (Some ''dev'') = (Inr ''tok-0'', ?held, [])"
    using getAccessToken_cached_or_exchanged [OF held, where token = "''tok-0''" and t = 5000 and now = 1000
                and up = flaky_upstream and now' = 2000]
    by simp
  have fresh: "slot_of initial_token_cache (toUpperCase (js_or (Some ''dev'') ''DEV'')) = Some empty_slot"
    by (simp add: key slot_of_def initial_token_cache_def)
  have invalid: "\<not> slot_valid 1000 empty_slot"
    by (simp add: slot_valid_def empty_slot_def truthy_def)
  have reply: "oauth flaky_upstream (token_request (getEnvironmentConfig (process_env flaky_upstream)
                  (Some (js_or (Some ''dev'') ''DEV'')))) = Inr \<lparr>access_token = ''tok-1'', expires_in = 1800\<rparr>"
    by (simp add: flaky_upstream_def)
  have request: "token_request (getEnvironmentConfig (process_env flaky_upstream)
                  (Some (js_or (Some ''dev'') ''DEV'')))
      = TokenRequest ''https://dev.example.com/dw/oauth2/access_token?client_id=client-dev''
           (Some ''Basic abc'')"
    by code_simp
  have stored: "store_slot ''DEV'' \<lparr>accessToken = Some ''tok-1'', tokenExpiresAt = Some 1742000\<rparr>
                   initial_token_cache
      = \<lparr>DEV = \<lparr>accessToken = Some ''tok-1'', tokenExpiresAt = Some 1742000\<rparr>, PRD = empty_slot\<rparr>"
    by (simp add: store_slot_def initial_token_cache_def)
  have exchanged: "getAccessToken flaky_upstream 1000 2000 initial_token_cache (Some ''dev'')
     = (Inr ''tok-1'',
        \<lparr>DEV = \<lparr>accessToken = Some ''tok-1'', tokenExpiresAt = Some 1742000\<rparr>, PRD = empty_slot\<rparr>,
        [TokenRequest ''https://dev.example.com/dw/oauth2/access_token?client_id=client-dev''
           (Some ''Basic abc'')])"
    using getAccessToken_cached_or_exchanged
            [OF fresh, where now = 1000 and up = flaky_upstream and now' = 2000
                and response = "\<lparr>access_token = ''tok-1'', expires_in = 1800\<rparr>"]
      invalid reply
    by (simp add: request key stored)
  have refused: "oauth empty_upstream (token_request (getEnvironmentConfig (process_env empty_upstream)
                  (Some (js_or (Some ''dev'') ''DEV'')))) = Inl AxiosError"
    by (simp add: empty_upstream_def)
  have request': "token_request (getEnvironmentConfig (process_env empty_upstream)
                  (Some (js_or (Some ''dev'') ''DEV'')))
      = TokenRequest ''undefined/dw/oauth2/access_token?client_id=undefined'' None"
    by code_simp
  have failed: "getAccessToken empty_upstream 1000 2000 initial_token_cache (Some ''dev'')
     = (Inl (Error ''Could not retrieve access token for DEV environment.''),
        initial_token_cache,
        [TokenRequest ''undefined/dw/oauth2/access_token?client_id=undefined'' None])"
    using getAccessToken_cached_or_exchanged
            [OF fresh, where now = 1000 and up = empty_upstream and now' = 2000 and e = AxiosError]
      invalid refused
    by (simp add: request' key)
  from cached exchanged failed show ?thesis by blast
qed


subsection \<open>The order query\<close>

lemma js_or_idem: "js_or (Some (js_or v d)) d = js_or v d"
  by (simp add: js_or_def split: option.split)

lemma cache_get_entries: "entries (snd (cache_get now key c)) = entries c"
  by (simp add: cache_get_def split: option.split)

lemma post_orders_no_body: "post_orders up clock st None = Some (server_error, st, [])"
  by (simp add: post_orders_def)




lemma post_orders_token_error:
  assumes "startDate req = Some dateFrom" and "dateFrom \<noteq> []"
    and "endDate req = Some dateTo" and "dateTo \<noteq> []"
    and "cache_get (t_lookup clock)
           (generateCacheKey dateFrom dateTo (request_data (otherFilters req))
              (js_or (environment req) ''DEV''))
           (orderCache st) = (None, cache')"
    and "getAccessToken up (t_token_check clock) (t_token_store clock) (tokens st)
           (Some (js_or (environment req) ''DEV'')) = (Inl e, tokens', issued)"
  shows "post_orders up clock st (Some req)
       = Some (server_error, \<lparr>tokens = tokens', orderCache = cache'\<rparr>, issued)"
  using assms by (simp add: post_orders_def orders_for_body_def Let_def)


lemma cache_get_miss_entries:
  "cache_get now key c = (None, c') \<Longrightarrow> entries c' = entries c"
  using cache_get_entries [of now key c] by simp

text \<open>
  C10. For every environment name whose upper-case form is neither "DEV" nor "PRD",
  \<open>getAccessToken\<close> throws \<open>TypeError\<close> (the slot read from the token cache is
  \<^verbatim>\<open>undefined\<close>): no request is issued, the token cache is unchanged and the error is not
  the token-acquisition \<open>Error\<close>. A \<^verbatim>\<open>POST /api/orders\<close> for such an environment whose
  body has both dates and which misses the response cache answers 500 without any
  request, and leaves the tokens and the cached entries as they are.
\<close>

theorem unknown_environment_raises_TypeError:
  assumes "toUpperCase (js_or env ''DEV'') \<noteq> ''DEV''"
    and "toUpperCase (js_or env ''DEV'') \<noteq> ''PRD''"
  shows
    "getAccessToken up now now' tokenCache env = (Inl TypeError, tokenCache, [])
     \<and> (startDate req = Some dateFrom \<and> dateFrom \<noteq> [] \<and> endDate req = Some dateTo \<and> dateTo \<noteq> []
          \<and> environment req = env
          \<and> cache_get (t_lookup clock)
               (generateCacheKey dateFrom dateTo (request_data (otherFilters req))
                  (js_or env ''DEV''))
               (orderCache st) = (None, cache')
        \<longrightarrow> post_orders up clock st (Some req)
              = Some (server_error, \<lparr>tokens = tokens st, orderCache = cache'\<rparr>, [])
            \<and> entries cache' = entries (orderCache st))
     \<and> status server_error = 500"
proof -
  have code: "status server_error = 500"
    by (simp add: server_error_def)
  have key: "toUpperCase (js_or (Some (js_or env ''DEV'')) ''DEV'') = toUpperCase (js_or env ''DEV'')"
    by (simp add: js_or_idem)
  have tok: "getAccessToken up a b tc (Some (js_or env ''DEV'')) = (Inl TypeError, tc, [])" for a b tc
    by (rule getAccessToken_unknown_environment) (simp_all add: key assms)
  show ?thesis
    using getAccessToken_unknown_environment [OF assms, of up now now' tokenCache]
      tok [of "t_token_check clock" "t_token_store clock" "tokens st"] code
    by (auto intro: post_orders_token_error dest: cache_get_miss_entries)
qed

theorem unknown_environment_raises_TypeError_witness:
  "getAccessToken flaky_upstream 1000 2000 initial_token_cache (Some ''staging'')
     = (Inl TypeError, initial_token_cache, [])
   \<and> post_orders flaky_upstream sample_clock initial_state
        (Some (sample_request\<lparr>environment := Some ''staging''\<rparr>))
     = Some (server_error,
             \<lparr>tokens = initial_token_cache,
              orderCache = \<lparr>entries = [], hit_count = 0, miss_count = 1\<rparr>\<rparr>,
             [])
   \<and> status server_error = 500"
proof -
  have not_dev: "toUpperCase (js_or (Some ''staging'') ''DEV'') \<noteq> ''DEV''"
    by code_simp
  have not_prd: "toUpperCase (js_or (Some ''staging'') ''DEV'') \<noteq> ''PRD''"
    by code_simp
  have miss: "cache_get (t_lookup sample_clock) key (orderCache initial_state)
                = (None, \<lparr>entries = [], hit_count = 0, miss_count = 1\<rparr>)" for key
    by (simp add: cache_get_def initial_state_def)
  from unknown_environment_raises_TypeError
         [OF not_dev not_prd, where up = flaky_upstream and now = 1000 and now' = 2000
            and tokenCache = initial_token_cache
            and req = "sample_request\<lparr>environment := Some ''staging''\<rparr>"
            and dateFrom = "''2024-01-01''" and dateTo = "''2024-01-31''"
            and clock = sample_clock and st = initial_state
            and cache' = "\<lparr>entries = [], hit_count = 0, miss_count = 1\<rparr>"]
  show ?thesis
    by (simp add: miss) (simp add: sample_request_def initial_state_def)
qed












subsection \<open>Cache management\<close>

lemma delete_key_set: "fst ` set (AList.delete k al) = fst ` set al - {k}"
proof -
  have "set (map fst (AList.delete k al)) = set (removeAll k (map fst al))"
    by (simp only: delete_keys)
  then show ?thesis by simp
qed

text \<open>
  C9. \<^verbatim>\<open>DELETE /api/cache/clear/:key\<close> for a key that is not cached answers 404 with
  \<^verbatim>\<open>deleted: false\<close> and leaves the cache as it is; \<^verbatim>\<open>DELETE /api/cache/clear\<close> on an
  empty cache reports 0 cleared keys; for a key that is cached, the first answers 200
  with \<^verbatim>\<open>deleted: true\<close> and removes that key and no other.
\<close>

theorem cache_clear_handlers:
  "(key \<notin> set (cache_keys c)
      \<longrightarrow> delete_cache_clear_key key c = (\<lparr>status = 404, body = DeletedBody False\<rparr>, c))
   \<and> (entries c = []
      \<longrightarrow> delete_cache_clear c = (\<lparr>status = 200, body = ClearedBody 0\<rparr>, c))
   \<and> (key \<in> set (cache_keys c)
      \<longrightarrow> (\<exists>c'. delete_cache_clear_key key c = (\<lparr>status = 200, body = DeletedBody True\<rparr>, c')
               \<and> map_of (entries c') = (map_of (entries c))(key := None)
               \<and> set (cache_keys c') = set (cache_keys c) - {key}
               \<and> hit_count c' = hit_count c \<and> miss_count c' = miss_count c))"
  by (simp add: delete_cache_clear_key_def delete_cache_clear_def cache_del_def cache_keys_def
        cache_flushAll_def Let_def delete_conv' delete_key_set)

theorem cache_clear_handlers_witness:
  "delete_cache_clear_key ''nope'' sample_cache
     = (\<lparr>status = 404, body = DeletedBody False\<rparr>, sample_cache)
   \<and> delete_cache_clear \<lparr>entries = [], hit_count = 3, miss_count = 2\<rparr>
     = (\<lparr>status = 200, body = ClearedBody 0\<rparr>, \<lparr>entries = [], hit_count = 3, miss_count = 2\<rparr>)
   \<and> (\<exists>c'. delete_cache_clear_key ''orders_DEV_a_b_orderType:Prepaid'' sample_cache
              = (\<lparr>status = 200, body = DeletedBody True\<rparr>, c')
            \<and> set (cache_keys c') = {''orders_PRD_a_b_orderType:Prepaid''})"
proof -
  have absent: "''nope'' \<notin> set (cache_keys sample_cache)"
    by (simp add: cache_keys_def sample_cache_def)
  have present: "''orders_DEV_a_b_orderType:Prepaid'' \<in> set (cache_keys sample_cache)"
    by (simp add: cache_keys_def sample_cache_def)
  have rest: "set (cache_keys sample_cache) - {''orders_DEV_a_b_orderType:Prepaid''}
                = {''orders_PRD_a_b_orderType:Prepaid''}"
    by (auto simp add: cache_keys_def sample_cache_def)
  have empty: "entries \<lparr>entries = [], hit_count = 3, miss_count = 2\<rparr> = []"
    by simp
  from cache_clear_handlers [of "''nope''" sample_cache] absent
  have one: "delete_cache_clear_key ''nope'' sample_cache
     = (\<lparr>status = 404, body = DeletedBody False\<rparr>, sample_cache)"
    by blast
  from cache_clear_handlers [of _ "\<lparr>entries = [], hit_count = 3, miss_count = 2\<rparr>"] empty
  have two: "delete_cache_clear \<lparr>entries = [], hit_count = 3, miss_count = 2\<rparr>
     = (\<lparr>status = 200, body = ClearedBody 0\<rparr>, \<lparr>entries = [], hit_count = 3, miss_count = 2\<rparr>)"
    by blast
  from cache_clear_handlers [of "''orders_DEV_a_b_orderType:Prepaid''" sample_cache] present
  have three: "\<exists>c'. delete_cache_clear_key ''orders_DEV_a_b_orderType:Prepaid'' sample_cache
              = (\<lparr>status = 200, body = DeletedBody True\<rparr>, c')
            \<and> set (cache_keys c') = {''orders_PRD_a_b_orderType:Prepaid''}"
    unfolding rest by blast
  from one two three show ?thesis by blast
qed


subsection \<open>Aggregation\<close>

lemma aggregate_breakdown:
  "fst (snd (foldl aggregate_hit (daily, breakdown, revenueSum, unitSum) hs))
   = \<lparr>new = new breakdown + length (filter is_guest hs),
      returning = returning breakdown + length (filter (\<lambda>h. \<not> is_guest h) hs),
      registered = registered breakdown + length (filter (\<lambda>h. \<not> is_guest h) hs),
      unregistered = unregistered breakdown + length (filter is_guest hs)\<rparr>"
proof (induction hs arbitrary: daily breakdown revenueSum unitSum)
  case Nil
  then show ?case by simp
next
  case (Cons h hs)
  show ?case
    by (simp add: aggregate_hit_def [of _ h] Let_def Cons.IH is_guest_def)
qed

lemma processOrderData_result:
  "processOrderData hs paymentMethod =
     (let filteredHits = filterHits hs paymentMethod;
          n = length filteredHits;
          st = foldl aggregate_hit
                 ([], \<lparr>new = 0, returning = 0, registered = 0, unregistered = 0\<rparr>, 0, 0)
                 filteredHits
      in Inr \<lparr>dailyMetrics = fst st,
              customerBreakdown = fst (snd st),
              kpis = \<lparr>totalOrders = n,
                      totalRevenue = fst (snd (snd st)),
                      totalUnits = snd (snd (snd st)),
                      avgOrderValue = (if n = 0 then 0 else fst (snd (snd st)) / of_nat n),
                      avgUnitsPerTransaction =
                        (if n = 0 then 0 else snd (snd (snd st)) / of_nat n)\<rparr>\<rparr>)"
  by (simp add: processOrderData_def Let_def divide_checked_def split: prod.split)

lemma processOrderData_breakdown:
  "\<exists>r. processOrderData hs paymentMethod = Inr r
     \<and> customerBreakdown r
       = \<lparr>new = length (filter is_guest (filterHits hs paymentMethod)),
          returning = length (filter (\<lambda>h. \<not> is_guest h) (filterHits hs paymentMethod)),
          registered = length (filter (\<lambda>h. \<not> is_guest h) (filterHits hs paymentMethod)),
          unregistered = length (filter is_guest (filterHits hs paymentMethod))\<rparr>"
  by (simp add: processOrderData_result Let_def aggregate_breakdown)

lemma count_not_guest:
  "length (filter (\<lambda>h. \<not> is_guest h) hs) = length hs - length (filter is_guest hs)"
  using sum_length_filter_compl [of is_guest hs] by simp

lemma filterHits_no_filter: "filterHits hs None = hs"
  by (simp add: filterHits_def)

text \<open>
  C5. For every record list and payment-method filter, the aggregator returns a result in
  which \<^verbatim>\<open>new\<close> and \<^verbatim>\<open>unregistered\<close> both equal the number of processed records with
  \<^verbatim>\<open>guest\<close> true, and \<^verbatim>\<open>returning\<close> and \<^verbatim>\<open>registered\<close> both equal the number of processed
  records with \<^verbatim>\<open>guest\<close> false; the processed records are the records that pass the
  payment-method filter, all of them without a filter. For ten records of which four are
  guest orders the breakdown is new 4, unregistered 4, returning 6, registered 6.
\<close>

theorem customerBreakdown_counts_guests:
  "(\<exists>r. processOrderData hs paymentMethod = Inr r
        \<and> new (customerBreakdown r) = length (filter is_guest (filterHits hs paymentMethod))
        \<and> unregistered (customerBreakdown r)
            = length (filter is_guest (filterHits hs paymentMethod))
        \<and> returning (customerBreakdown r)
            = length (filter (\<lambda>h. \<not> is_guest h) (filterHits hs paymentMethod))
        \<and> registered (customerBreakdown r)
            = length (filter (\<lambda>h. \<not> is_guest h) (filterHits hs paymentMethod)))
   \<and> filterHits hs None = hs
   \<and> (length hs = 10 \<and> length (filter is_guest hs) = 4
        \<longrightarrow> (\<exists>r. processOrderData hs None = Inr r
                 \<and> customerBreakdown r
                     = \<lparr>new = 4, returning = 6, registered = 6, unregistered = 4\<rparr>))"
proof (intro conjI impI)
  from processOrderData_breakdown [of hs paymentMethod]
  show "\<exists>r. processOrderData hs paymentMethod = Inr r
        \<and> new (customerBreakdown r) = length (filter is_guest (filterHits hs paymentMethod))
        \<and> unregistered (customerBreakdown r)
            = length (filter is_guest (filterHits hs paymentMethod))
        \<and> returning (customerBreakdown r)
            = length (filter (\<lambda>h. \<not> is_guest h) (filterHits hs paymentMethod))
        \<and> registered (customerBreakdown r)
            = length (filter (\<lambda>h. \<not> is_guest h) (filterHits hs paymentMethod))"
    by auto
  show "filterHits hs None = hs"
    by (rule filterHits_no_filter)
next
  assume "length hs = 10 \<and> length (filter is_guest hs) = 4"
  with processOrderData_breakdown [of hs None] count_not_guest [of hs]
  show "\<exists>r. processOrderData hs None = Inr r
          \<and> customerBreakdown r = \<lparr>new = 4, returning = 6, registered = 6, unregistered = 4\<rparr>"
    by (simp add: filterHits_no_filter)
qed

theorem customerBreakdown_counts_guests_witness:
  "length ten_hits = 10 \<and> length (filter is_guest ten_hits) = 4
   \<and> (\<exists>r. processOrderData ten_hits None = Inr r
          \<and> customerBreakdown r = \<lparr>new = 4, returning = 6, registered = 6, unregistered = 4\<rparr>)"
proof -
  have ten: "length ten_hits = 10"
    by (simp add: ten_hits_def)
  have four: "length (filter is_guest ten_hits) = 4"
    by (simp add: ten_hits_def is_guest_def sample_hit_def member_hit_def)
  from customerBreakdown_counts_guests [of ten_hits None] ten four show ?thesis
    by blast
qed

text \<open>
  C7. For every record list and payment-method filter, the aggregator returns a result
  (no division has a zero divisor), \<^verbatim>\<open>totalOrders\<close> is the number of records that pass
  the filter, and when it is 0 both averages are exactly 0.
\<close>

theorem averages_zero_without_orders:
  "\<exists>r. processOrderData hs paymentMethod = Inr r
     \<and> totalOrders (kpis r) = length (filterHits hs paymentMethod)
     \<and> (totalOrders (kpis r) = 0
          \<longrightarrow> avgOrderValue (kpis r) = 0 \<and> avgUnitsPerTransaction (kpis r) = 0)"
  by (simp add: processOrderData_result Let_def)

theorem averages_zero_without_orders_witness:
  "(\<exists>r. processOrderData [] None = Inr r
        \<and> totalOrders (kpis r) = 0
        \<and> avgOrderValue (kpis r) = 0 \<and> avgUnitsPerTransaction (kpis r) = 0)
   \<and> (\<exists>r. processOrderData ten_hits (Some ''PAYPAL'') = Inr r
        \<and> totalOrders (kpis r) = 0
        \<and> avgOrderValue (kpis r) = 0 \<and> avgUnitsPerTransaction (kpis r) = 0)"
proof -
  have none: "length (filterHits [] None) = 0"
    by (simp add: filterHits_def)
  have unmatched: "length (filterHits ten_hits (Some ''PAYPAL'')) = 0"
    by (simp add: filterHits_def trim_def is_space_def matches_payment_method_def
          ten_hits_def sample_hit_def member_hit_def)
  from averages_zero_without_orders [of "[]" None] none
  have one: "\<exists>r. processOrderData [] None = Inr r
        \<and> totalOrders (kpis r) = 0
        \<and> avgOrderValue (kpis r) = 0 \<and> avgUnitsPerTransaction (kpis r) = 0"
    by auto
  from averages_zero_without_orders [of ten_hits "Some ''PAYPAL''"] unmatched
  have two: "\<exists>r. processOrderData ten_hits (Some ''PAYPAL'') = Inr r
        \<and> totalOrders (kpis r) = 0
        \<and> avgOrderValue (kpis r) = 0 \<and> avgUnitsPerTransaction (kpis r) = 0"
    by auto
  from one two show ?thesis ..
qed


end
